theory Spec2Isabelle
  imports Complex_Main "HOL-Library.AList"
begin

section \<open>Problem 1: three ways to sum to n\<close>

text \<open>
  JavaScript numbers are modelled by their exact real values: the development
  covers the range in which the double-precision arithmetic of the source is
  exact, and does not model rounding.

  \<^verbatim>\<open>const sum_to_n_a = (n) => { return (n * (n + 1)) / 2; };\<close>
\<close>

definition sum_to_n_a :: "real \<Rightarrow> real" where
  "sum_to_n_a n = (n * (n + 1)) / 2"

text \<open>
  \<^verbatim>\<open>let sum = 0; for (let i = 1; i <= n; i++) { sum += i; } return sum;\<close>
  The loop is the recursive function \<open>sum_to_n_b_loop n i acc\<close>, entered with
  \<open>i = 1\<close> and \<open>acc = 0\<close>.
\<close>

function sum_to_n_b_loop :: "real \<Rightarrow> real \<Rightarrow> real \<Rightarrow> real" where
  "sum_to_n_b_loop n i acc = (if i \<le> n then sum_to_n_b_loop n (i + 1) (acc + i) else acc)"
  by pat_completeness auto
termination
proof (relation "measure (\<lambda>(n, i, acc). nat (\<lfloor>n - i\<rfloor> + 1))")
  show "wf (measure (\<lambda>(n, i, acc). nat (\<lfloor>n - i\<rfloor> + 1)))" by simp
next
  fix n i acc :: real
  assume "i \<le> n"
  then have "0 \<le> \<lfloor>n - i\<rfloor>" by simp
  moreover have "n - (i + 1) = (n - i) - 1" by simp
  then have "\<lfloor>n - (i + 1)\<rfloor> = \<lfloor>n - i\<rfloor> - 1" by (simp only: floor_diff_one)
  ultimately show "((n, i + 1, acc + i), (n, i, acc)) \<in> measure (\<lambda>(n, i, acc). nat (\<lfloor>n - i\<rfloor> + 1))"
    by simp
qed

declare sum_to_n_b_loop.simps [simp del]

definition sum_to_n_b :: "real \<Rightarrow> real" where
  "sum_to_n_b n = sum_to_n_b_loop n 1 0"

text \<open>
  \<^verbatim>\<open>if (n <= 1) { return n; } return n + sum_to_n_c(n - 1);\<close>
\<close>

function sum_to_n_c :: "real \<Rightarrow> real" where
  "sum_to_n_c n = (if n \<le> 1 then n else n + sum_to_n_c (n - 1))"
  by pat_completeness auto
termination
proof (relation "measure (\<lambda>n. nat \<lceil>n\<rceil>)")
  show "wf (measure (\<lambda>n::real. nat \<lceil>n\<rceil>))" by simp
next
  fix n :: real
  assume "\<not> n \<le> 1"
  then have "1 < \<lceil>n\<rceil>" by linarith
  moreover have "\<lceil>n - 1\<rceil> = \<lceil>n\<rceil> - 1" by simp
  ultimately show "(n - 1, n) \<in> measure (\<lambda>n. nat \<lceil>n\<rceil>)" by simp
qed

declare sum_to_n_c.simps [simp del]

text \<open>The specification's words: the sum of the integers \<open>1..n\<close>.\<close>

definition sum_1_to :: "nat \<Rightarrow> nat" where
  "sum_1_to n = \<Sum>{1..n}"

section \<open>JavaScript numbers and strings\<close>

text \<open>
  A JavaScript number is a finite value, one of the two infinities or NaN.
  Finite values are exact reals (no rounding, no overflow, a single zero).
\<close>

datatype jsnum = Fin real | PosInf | NegInf | NaN

text \<open>ToBoolean on a number: \<open>0\<close> and \<open>NaN\<close> are falsy.\<close>

fun truthy :: "jsnum \<Rightarrow> bool" where
  "truthy (Fin x) = (x \<noteq> 0)"
| "truthy NaN = False"
| "truthy PosInf = True"
| "truthy NegInf = True"

definition isNaN :: "jsnum \<Rightarrow> bool" where
  "isNaN n = (n = NaN)"

fun isFinite :: "jsnum \<Rightarrow> bool" where
  "isFinite (Fin x) = True"
| "isFinite n = False"

fun js_neg :: "jsnum \<Rightarrow> jsnum" where
  "js_neg (Fin x) = Fin (- x)"
| "js_neg PosInf = NegInf"
| "js_neg NegInf = PosInf"
| "js_neg NaN = NaN"

text \<open>The relational operators: every comparison with NaN is false.\<close>

fun js_lt :: "jsnum \<Rightarrow> jsnum \<Rightarrow> bool" where
  "js_lt (Fin x) (Fin y) = (x < y)"
| "js_lt (Fin x) PosInf = True"
| "js_lt NegInf (Fin y) = True"
| "js_lt NegInf PosInf = True"
| "js_lt a b = False"

definition js_gt :: "jsnum \<Rightarrow> jsnum \<Rightarrow> bool" where
  "js_gt a b = js_lt b a"

definition js_le :: "jsnum \<Rightarrow> jsnum \<Rightarrow> bool" where
  "js_le a b = (a \<noteq> NaN \<and> b \<noteq> NaN \<and> (js_lt a b \<or> a = b))"

text \<open>
  Division and multiplication with the IEEE special cases: a non-zero finite
  value divided by zero is an infinity, \<open>0 / 0\<close> is NaN.
\<close>

fun js_div :: "jsnum \<Rightarrow> jsnum \<Rightarrow> jsnum" where
  "js_div (Fin x) (Fin y) =
     (if y = 0 then (if x = 0 then NaN else if 0 < x then PosInf else NegInf)
      else Fin (x / y))"
| "js_div (Fin x) PosInf = Fin 0"
| "js_div (Fin x) NegInf = Fin 0"
| "js_div PosInf (Fin y) = (if 0 \<le> y then PosInf else NegInf)"
| "js_div NegInf (Fin y) = (if 0 \<le> y then NegInf else PosInf)"
| "js_div a b = NaN"

fun js_mul :: "jsnum \<Rightarrow> jsnum \<Rightarrow> jsnum" where
  "js_mul (Fin x) (Fin y) = Fin (x * y)"
| "js_mul (Fin x) PosInf = (if x = 0 then NaN else if 0 < x then PosInf else NegInf)"
| "js_mul (Fin x) NegInf = (if x = 0 then NaN else if 0 < x then NegInf else PosInf)"
| "js_mul PosInf (Fin y) = (if y = 0 then NaN else if 0 < y then PosInf else NegInf)"
| "js_mul NegInf (Fin y) = (if y = 0 then NaN else if 0 < y then NegInf else PosInf)"
| "js_mul PosInf PosInf = PosInf"
| "js_mul NegInf NegInf = PosInf"
| "js_mul PosInf NegInf = NegInf"
| "js_mul NegInf PosInf = NegInf"
| "js_mul a b = NaN"

text \<open>
  Strings are lists of characters. Digits are the ASCII digits (what \<open>\d\<close>
  matches), white space is the ASCII part of what \<open>trim\<close> and \<open>parseFloat\<close>
  strip.
\<close>

definition isDigit :: "char \<Rightarrow> bool" where
  "isDigit c = (c \<in> set ''0123456789'')"

definition isWhiteSpace :: "char \<Rightarrow> bool" where
  "isWhiteSpace c = (c \<in> set [CHR 0x09, CHR 0x0A, CHR 0x0B, CHR 0x0C, CHR 0x0D, CHR '' ''])"

definition trim :: "string \<Rightarrow> string" where
  "trim s = rev (dropWhile isWhiteSpace (rev (dropWhile isWhiteSpace s)))"

definition digitVal :: "char \<Rightarrow> nat" where
  "digitVal c = of_char c - 48"

definition digitsValue :: "string \<Rightarrow> nat" where
  "digitsValue ds = foldl (\<lambda>a c. 10 * a + digitVal c) 0 ds"

definition scale10 :: "real \<Rightarrow> int \<Rightarrow> real" where
  "scale10 m e = (if 0 \<le> e then m * 10 ^ nat e else m / 10 ^ nat (- e))"

text \<open>
  \<open>parseFloat\<close>: leading white space is skipped, then the longest prefix that is
  a decimal literal (optional sign; \<open>Infinity\<close>, or digits with an optional
  fraction and an optional exponent part) is the value; NaN when there is none.
  \<open>parseExponent\<close> reads the exponent part: \<open>e\<close> or \<open>E\<close>, an optional sign and
  at least one digit, and is 0 when the text has no such part.
\<close>

definition parseExponent :: "string \<Rightarrow> int" where
  "parseExponent r =
     (case r of
        [] \<Rightarrow> 0
      | c # r1 \<Rightarrow>
          if c = CHR ''e'' \<or> c = CHR ''E'' then
            (let neg = (take 1 r1 = ''-'');
                 r2 = (if take 1 r1 = ''-'' \<or> take 1 r1 = ''+'' then drop 1 r1 else r1);
                 ds = takeWhile isDigit r2
             in if ds = [] then 0
                else if neg then - int (digitsValue ds) else int (digitsValue ds))
          else 0)"

definition parseUnsigned :: "string \<Rightarrow> jsnum" where
  "parseUnsigned r =
     (if take 8 r = ''Infinity'' then PosInf
      else
        (let ip = takeWhile isDigit r;
             r1 = dropWhile isDigit r;
             fp = (if take 1 r1 = ''.'' then takeWhile isDigit (drop 1 r1) else []);
             r2 = (if take 1 r1 = ''.'' then dropWhile isDigit (drop 1 r1) else r1)
         in if ip = [] \<and> fp = [] then NaN
            else Fin (scale10 (real (digitsValue (ip @ fp)))
                        (parseExponent r2 - int (length fp)))))"

definition parseFloat :: "string \<Rightarrow> jsnum" where
  "parseFloat s =
     (let t = dropWhile isWhiteSpace s
      in if take 1 t = ''-'' then js_neg (parseUnsigned (drop 1 t))
         else if take 1 t = ''+'' then parseUnsigned (drop 1 t)
         else parseUnsigned t)"

section \<open>Problem 2: currency utilities\<close>

record PriceSample =
  currency :: string
  price :: "jsnum option"
  date :: string

text \<open>
  A token object. A field the object lacks reads as \<open>undefined\<close>: \<open>price\<close> is
  \<open>None\<close> for a token without a price. A \<open>null\<close> token is \<open>None\<close> of
  \<open>Token option\<close>.
\<close>

record Token =
  currency :: string
  price :: "jsnum option"
  lastUpdated :: string
  iconUrl :: string

text \<open>
  \<^verbatim>\<open>if (!fromToken?.price || !toToken?.price || fromToken.price === 0) return 0;
  return fromToken.price / toToken.price;\<close>
  \<open>optPrice\<close> is \<open>token?.price\<close>, \<open>falsy\<close> is \<open>!v\<close> on a number or \<open>undefined\<close>.
\<close>

definition optPrice :: "Token option \<Rightarrow> jsnum option" where
  "optPrice t = (case t of None \<Rightarrow> None | Some tok \<Rightarrow> Token.price tok)"

definition falsy :: "jsnum option \<Rightarrow> bool" where
  "falsy v = (case v of None \<Rightarrow> True | Some n \<Rightarrow> \<not> truthy n)"

definition calculateExchangeRate :: "Token option \<Rightarrow> Token option \<Rightarrow> jsnum" where
  "calculateExchangeRate fromToken toToken =
     (if falsy (optPrice fromToken) \<or> falsy (optPrice toToken)
         \<or> optPrice fromToken = Some (Fin 0)
      then Fin 0
      else (case (optPrice fromToken, optPrice toToken) of
              (Some p, Some q) \<Rightarrow> js_div p q
            | _ \<Rightarrow> NaN))"

text \<open>
  \<^verbatim>\<open>const amount = typeof inputAmount === "string" ? parseFloat(inputAmount) : inputAmount;
  if (isNaN(amount) || amount <= 0 || exchangeRate <= 0) return 0;
  return amount * exchangeRate;\<close>
  The input amount is a string or a number.
\<close>

datatype amount = Str string | Num jsnum

definition toNumber :: "amount \<Rightarrow> jsnum" where
  "toNumber a = (case a of Str s \<Rightarrow> parseFloat s | Num n \<Rightarrow> n)"

definition calculateOutputAmount :: "amount \<Rightarrow> jsnum \<Rightarrow> jsnum" where
  "calculateOutputAmount inputAmount exchangeRate =
     (let amount = toNumber inputAmount
      in if isNaN amount \<or> js_le amount (Fin 0) \<or> js_le exchangeRate (Fin 0) then Fin 0
         else js_mul amount exchangeRate)"

text \<open>
  \<^verbatim>\<open>if (!amount || amount.trim() === "") return false;
  const num = parseFloat(amount);
  return !isNaN(num) && num > 0 && isFinite(num);\<close>
\<close>

definition isValidAmount :: "string \<Rightarrow> bool" where
  "isValidAmount amount =
     (if amount = [] \<or> trim amount = [] then False
      else (let num = parseFloat amount
            in \<not> isNaN num \<and> js_gt num (Fin 0) \<and> isFinite num))"

text \<open>
  \<^verbatim>\<open>if (!currency) return "";
  return `https://raw.githubusercontent.com/Switcheo/token-icons/main/tokens/${currency}.svg`;\<close>
\<close>

definition getTokenIconUrl :: "string \<Rightarrow> string" where
  "getTokenIconUrl c =
     (if c = [] then []
      else ''https://raw.githubusercontent.com/Switcheo/token-icons/main/tokens/'' @ c @ ''.svg'')"

text \<open>
  The result object of \<open>validateSwapData\<close>: \<open>{ isValid, error }\<close>, with \<open>error\<close>
  absent from a valid result.
\<close>

record ValidationResult =
  isValid :: bool
  error :: "string option"

definition validateSwapData :: "Token option \<Rightarrow> Token option \<Rightarrow> string \<Rightarrow> ValidationResult" where
  "validateSwapData fromToken toToken fromAmount =
     (case fromToken of
        None \<Rightarrow> \<lparr> isValid = False, error = Some ''Please select a token to swap from'' \<rparr>
      | Some f \<Rightarrow>
          (case toToken of
             None \<Rightarrow> \<lparr> isValid = False, error = Some ''Please select a token to swap to'' \<rparr>
           | Some t \<Rightarrow>
               if Token.currency f = Token.currency t
               then \<lparr> isValid = False, error = Some ''Cannot swap the same token'' \<rparr>
               else if \<not> isValidAmount fromAmount
               then \<lparr> isValid = False, error = Some ''Please enter a valid amount'' \<rparr>
               else \<lparr> isValid = True, error = None \<rparr>))"

text \<open>
  The token objects of the test suites, \<open>{ currency, price }\<close>: the fields they
  lack are left empty.
\<close>

definition testToken :: "string \<Rightarrow> jsnum \<Rightarrow> Token" where
  "testToken c p = \<lparr> currency = c, price = Some p, lastUpdated = [], iconUrl = [] \<rparr>"

text \<open>
  \<open>processTokenData\<close>. The \<open>Map\<close> keeps its keys in insertion order and \<open>set\<close> on
  a present key replaces the value in place: an association list with
  \<open>AList.update\<close>. \<open>new Date(item.date) > new Date(existing.date)\<close> compares
  the time values of the two dates; \<open>timeValue\<close> gives the time value of a date
  text (milliseconds, and NaN for an invalid date).
  \<^verbatim>\<open>priceData.forEach((item) => {
    const existing = tokenMap.get(item.currency);
    if (!existing || new Date(item.date) > new Date(existing.date)) {
      tokenMap.set(item.currency, item);
    }
  });\<close>
\<close>

definition addSample ::
  "(string \<Rightarrow> jsnum) \<Rightarrow> PriceSample \<Rightarrow> (string \<times> PriceSample) list \<Rightarrow> (string \<times> PriceSample) list" where
  "addSample timeValue item tokenMap =
     (case map_of tokenMap (PriceSample.currency item) of
        None \<Rightarrow> AList.update (PriceSample.currency item) item tokenMap
      | Some existing \<Rightarrow>
          if js_gt (timeValue (date item)) (timeValue (date existing))
          then AList.update (PriceSample.currency item) item tokenMap
          else tokenMap)"

definition sampleToken :: "PriceSample \<Rightarrow> Token" where
  "sampleToken item =
     \<lparr> currency = PriceSample.currency item,
       price = PriceSample.price item,
       lastUpdated = date item,
       iconUrl = getTokenIconUrl (PriceSample.currency item) \<rparr>"

definition processTokenData :: "(string \<Rightarrow> jsnum) \<Rightarrow> PriceSample list \<Rightarrow> Token list" where
  "processTokenData timeValue priceData =
     map sampleToken (map snd (fold (addSample timeValue) priceData []))"

text \<open>
  The invariant of the \<open>forEach\<close> loop after the samples \<open>ys\<close>: the map has one
  entry per currency seen, and no sample seen has a later date than the one kept
  for its currency.
\<close>

definition latestInv ::
  "(string \<Rightarrow> jsnum) \<Rightarrow> PriceSample list \<Rightarrow> (string \<times> PriceSample) list \<Rightarrow> bool" where
  "latestInv tv ys m \<longleftrightarrow>
     distinct (map fst m) \<and>
     dom (map_of m) = PriceSample.currency ` set ys \<and>
     (\<forall>k s. map_of m k = Some s \<longrightarrow>
        PriceSample.currency s = k \<and> s \<in> set ys \<and>
        (\<forall>s' \<in> set ys. PriceSample.currency s' = k \<longrightarrow>
           \<not> js_gt (tv (date s')) (tv (date s))))"

text \<open>A small feed and the time values of its dates, for evaluating the code.\<close>

definition exampleTimeValue :: "string \<Rightarrow> jsnum" where
  "exampleTimeValue d =
     (if d = ''2023-08-29T07:10:40.000Z'' then Fin 1693293040000
      else if d = ''2023-08-29T07:10:50.000Z'' then Fin 1693293050000
      else NaN)"

definition exampleFeed :: "PriceSample list" where
  "exampleFeed =
     [\<lparr> PriceSample.currency = ''ETH'', price = Some (Fin 1645), date = ''2023-08-29T07:10:40.000Z'' \<rparr>,
      \<lparr> PriceSample.currency = ''BTC'', price = Some (Fin 26002), date = ''2023-08-29T07:10:50.000Z'' \<rparr>,
      \<lparr> PriceSample.currency = ''ETH'', price = Some (Fin 1650), date = ''2023-08-29T07:10:50.000Z'' \<rparr>,
      \<lparr> PriceSample.currency = ''BTC'', price = Some (Fin 25000), date = ''2023-08-29T07:10:40.000Z'' \<rparr>]"

section \<open>Problem 2: the price service\<close>

text \<open>
  \<open>PriceService\<close>: the cache is a \<open>Map\<close> from cache keys to entries
  \<open>{ data, timestamp }\<close>; the constructor sets \<open>CACHE_DURATION = 30000\<close>.
\<close>

record CacheEntry =
  data :: "Token list"
  timestamp :: int

record PriceService =
  cache :: "string \<rightharpoonup> CacheEntry"
  CACHE_DURATION :: int

definition newPriceService :: PriceService where
  "newPriceService = \<lparr> cache = Map.empty, CACHE_DURATION = 30000 \<rparr>"

text \<open>
  What the network answers to \<open>fetch(API_ENDPOINTS.PRICES)\<close>: the request fails,
  or a response arrives with its \<open>ok\<close> flag, its status and its body, which
  \<open>response.json()\<close> parses to the samples or fails to parse (\<open>None\<close>).
  \<open>fetchPrices\<close> turns every failure into one error:
  \<^verbatim>\<open>try { const response = await fetch(API_ENDPOINTS.PRICES);
        if (!response.ok) throw new Error(`HTTP error! status: ${response.status}`);
        const data = await response.json(); return data;
  } catch (error) { throw new Error("Failed to fetch price data. Please try again."); }\<close>
\<close>

datatype reply = NetworkFailure | Response bool nat "PriceSample list option"

definition fetchPrices :: "reply \<Rightarrow> string + PriceSample list" where
  "fetchPrices r =
     (case r of
        NetworkFailure \<Rightarrow> Inl ''Failed to fetch price data. Please try again.''
      | Response ok status body \<Rightarrow>
          if \<not> ok then Inl ''Failed to fetch price data. Please try again.''
          else (case body of
                  None \<Rightarrow> Inl ''Failed to fetch price data. Please try again.''
                | Some d \<Rightarrow> Inr d))"

text \<open>
  \<open>getTokens\<close>. The call reads the clock (\<open>now\<close>) for the freshness test; when
  the entry is missing or stale it issues the request, answered by \<open>r\<close>, and on
  success reads the clock again (\<open>now'\<close>) for the new entry. The result is the
  returned tokens or the thrown error, the service after the call, and the
  number of requests issued; \<open>refetch\<close> is the \<open>try\<close> block with its handler.
  The call is taken as one step: calls interleaved during the request are not
  modelled.
  \<^verbatim>\<open>const cached = this.cache.get(cacheKey);
  if (cached && Date.now() - cached.timestamp < this.CACHE_DURATION) return cached.data;
  try {
    const priceData = await this.fetchPrices();
    const tokens = processTokenData(priceData);
    this.cache.set(cacheKey, { data: tokens, timestamp: Date.now() });
    return tokens;
  } catch (error) {
    if (cached) return cached.data;
    throw error;
  }\<close>
\<close>

definition refetch ::
  "(string \<Rightarrow> jsnum) \<Rightarrow> PriceService \<Rightarrow> CacheEntry option \<Rightarrow> reply \<Rightarrow> int
     \<Rightarrow> (string + Token list) \<times> PriceService \<times> nat" where
  "refetch timeValue svc cached r now' =
     (case fetchPrices r of
        Inr priceData \<Rightarrow>
          (let tokens = processTokenData timeValue priceData
           in (Inr tokens,
               svc\<lparr> cache := (cache svc)(''tokens'' \<mapsto> \<lparr> data = tokens, timestamp = now' \<rparr>) \<rparr>,
               1))
      | Inl err \<Rightarrow>
          (case cached of
             Some c \<Rightarrow> (Inr (data c), svc, 1)
           | None \<Rightarrow> (Inl err, svc, 1)))"

definition getTokens ::
  "(string \<Rightarrow> jsnum) \<Rightarrow> PriceService \<Rightarrow> int \<Rightarrow> reply \<Rightarrow> int
     \<Rightarrow> (string + Token list) \<times> PriceService \<times> nat" where
  "getTokens timeValue svc now r now' =
     (case cache svc ''tokens'' of
        Some c \<Rightarrow>
          if now - timestamp c < CACHE_DURATION svc then (Inr (data c), svc, 0)
          else refetch timeValue svc (Some c) r now'
      | None \<Rightarrow> refetch timeValue svc None r now')"

section \<open>Problem 2: debounce\<close>

text \<open>
  \<^verbatim>\<open>const debounce = (func = () => {}, delay = 300) => {
    let timeoutId;
    return (...args) => {
      clearTimeout(timeoutId);
      timeoutId = setTimeout(() => func(...args), delay);
    };
  };\<close>
  The state of one debounced function and of the runtime's timers it uses:
  the active timers as (id, due time, arguments of the call that set it), the
  next timer id, the closure variable \<open>timeoutId\<close>, and the calls of \<open>func\<close> made
  so far, each with the time it ran at. Times are in milliseconds.
\<close>

record 'a timerState =
  timers :: "(nat \<times> nat \<times> 'a) list"
  nextId :: nat
  timeoutId :: "nat option"
  executed :: "(nat \<times> 'a) list"

definition debounceInit :: "'a timerState" where
  "debounceInit = \<lparr> timers = [], nextId = 1, timeoutId = None, executed = [] \<rparr>"

text \<open>
  \<open>clearTimeout\<close> removes the timer with the given id if it is still active and
  does nothing for \<open>undefined\<close> or for a timer that has fired.
\<close>

definition clearTimeout :: "nat option \<Rightarrow> (nat \<times> nat \<times> 'a) list \<Rightarrow> (nat \<times> nat \<times> 'a) list" where
  "clearTimeout tid ts = filter (\<lambda>tm. Some (fst tm) \<noteq> tid) ts"

text \<open>A call of the debounced function at time \<open>now\<close> with arguments \<open>args\<close>.\<close>

definition debounced :: "nat \<Rightarrow> nat \<Rightarrow> 'a \<Rightarrow> 'a timerState \<Rightarrow> 'a timerState" where
  "debounced delay now args st =
     st\<lparr> timers := clearTimeout (timeoutId st) (timers st) @ [(nextId st, now + delay, args)],
         timeoutId := Some (nextId st),
         nextId := Suc (nextId st) \<rparr>"

text \<open>
  The event loop up to time \<open>t\<close>: every active timer due by \<open>t\<close> fires, in the
  order of the due times, and its callback calls \<open>func\<close> with the stored
  arguments.
\<close>

definition runTimers :: "nat \<Rightarrow> 'a timerState \<Rightarrow> 'a timerState" where
  "runTimers t st =
     st\<lparr> timers := filter (\<lambda>tm. \<not> fst (snd tm) \<le> t) (timers st),
         executed := executed st
           @ map snd (sort_key (\<lambda>tm. fst (snd tm)) (filter (\<lambda>tm. fst (snd tm) \<le> t) (timers st))) \<rparr>"

text \<open>
  A sequence of calls, each given by its time and its arguments: the event loop
  runs up to the time of the call, then the call is made.
\<close>

definition callAt :: "nat \<Rightarrow> nat \<times> 'a \<Rightarrow> 'a timerState \<Rightarrow> 'a timerState" where
  "callAt delay ev st = debounced delay (fst ev) (snd ev) (runTimers (fst ev) st)"

definition callsAt :: "nat \<Rightarrow> (nat \<times> 'a) list \<Rightarrow> 'a timerState \<Rightarrow> 'a timerState" where
  "callsAt delay evs st = fold (callAt delay) evs st"

text \<open>
  A burst: the calls are in time order and each comes less than \<open>delay\<close> after
  the one before.
\<close>

fun burst :: "nat \<Rightarrow> (nat \<times> 'a) list \<Rightarrow> bool" where
  "burst delay [] = True"
| "burst delay [e] = True"
| "burst delay (e1 # e2 # es) =
     (fst e1 \<le> fst e2 \<and> fst e2 < fst e1 + delay \<and> burst delay (e2 # es))"

text \<open>
  At most one timer of the debounced function is active, and it is the one
  \<open>timeoutId\<close> names.
\<close>

definition oneTimer :: "'a timerState \<Rightarrow> bool" where
  "oneTimer st \<longleftrightarrow> timers st = [] \<or> (\<exists>i d a. timers st = [(i, d, a)] \<and> timeoutId st = Some i)"

text \<open>Three edits of an amount 100 ms and 250 ms apart, for evaluating the code.\<close>

definition exampleCalls :: "(nat \<times> string) list" where
  "exampleCalls = [(0, ''1''), (100, ''12''), (350, ''12.5'')]"

text \<open>
  \<open>Number.prototype.toString\<close> in radix 10, after the ECMAScript definition with
  exact values: for \<open>x > 0\<close> let \<open>n\<close> be the decimal exponent of \<open>x\<close>
  (\<open>10^(n-1) \<le> x < 10^n\<close>), \<open>k\<close> the least number of significant digits that
  write \<open>x\<close> exactly, and \<open>s\<close> the integer of these digits. The notation depends
  on \<open>n\<close> alone: plain decimal notation for \<open>-6 < n \<le> 21\<close>, exponent notation
  otherwise. JavaScript prints at most 17 significant digits; a value without
  an exact decimal expansion of that length is cut to 17 digits here (the
  source rounds to the shortest text that reads back as the same double, so
  its last digits can differ; the notation does not).
\<close>

definition digitChar :: "nat \<Rightarrow> char" where
  "digitChar d = ''0123456789'' ! d"

fun digitsOf :: "nat \<Rightarrow> string" where
  "digitsOf n = (if n < 10 then [digitChar n] else digitsOf (n div 10) @ [digitChar (n mod 10)])"

declare digitsOf.simps [simp del]

function leadingZeros :: "real \<Rightarrow> nat" where
  "leadingZeros x = (if 0 < x \<and> x < 1 / 10 then Suc (leadingZeros (10 * x)) else 0)"
  by pat_completeness auto
termination
proof (relation "measure (\<lambda>x. nat \<lceil>1 / x\<rceil>)")
  show "wf (measure (\<lambda>x::real. nat \<lceil>1 / x\<rceil>))" by simp
next
  fix x :: real
  assume a: "0 < x \<and> x < 1 / 10"
  define m where "m = \<lceil>1 / x\<rceil>"
  from a have "10 < 1 / x" by (simp add: field_simps)
  then have c: "10 < m" unfolding m_def by linarith
  have "1 / x \<le> real_of_int m" unfolding m_def by linarith
  then have "1 / (10 * x) \<le> real_of_int m / 10" by simp
  also have "\<dots> \<le> real_of_int (m - 1)" using c by simp
  finally have "\<lceil>1 / (10 * x)\<rceil> \<le> m - 1" by (simp only: ceiling_le)
  with c have "nat \<lceil>1 / (10 * x)\<rceil> < nat m" by linarith
  then show "(10 * x, x) \<in> measure (\<lambda>x. nat \<lceil>1 / x\<rceil>)"
    unfolding m_def by simp
qed

declare leadingZeros.simps [simp del]

text \<open>
  The decimal exponent: the number of digits of the integer part for \<open>x \<ge> 1\<close>,
  and minus the number of zeros between the point and the first non-zero digit
  for \<open>0 < x < 1\<close>.
\<close>

definition decimalExponent :: "real \<Rightarrow> int" where
  "decimalExponent x =
     (if 1 \<le> x then int (length (digitsOf (nat \<lfloor>x\<rfloor>))) else - int (leadingZeros x))"

definition isInteger :: "real \<Rightarrow> bool" where
  "isInteger x = (x = of_int \<lfloor>x\<rfloor>)"

definition digitCount :: "real \<Rightarrow> int \<Rightarrow> nat" where
  "digitCount x n =
     (case List.find (\<lambda>k. isInteger (scale10 x (int k - n))) [1, 2, 3, 4, 5, 6, 7, 8, 9, 10, 11, 12, 13, 14, 15, 16] of
        Some k \<Rightarrow> k
      | None \<Rightarrow> 17)"

definition exponentText :: "int \<Rightarrow> string" where
  "exponentText e = (if e < 0 then CHR ''-'' # digitsOf (nat (- e)) else CHR ''+'' # digitsOf (nat e))"

definition positiveToString :: "real \<Rightarrow> string" where
  "positiveToString x =
     (let n = decimalExponent x;
          k = digitCount x n;
          ds = digitsOf (nat \<lfloor>scale10 x (int k - n)\<rfloor>)
      in if int k \<le> n \<and> n \<le> 21 then ds @ replicate (nat (n - int k)) CHR ''0''
         else if 0 < n \<and> n \<le> 21 then take (nat n) ds @ CHR ''.'' # drop (nat n) ds
         else if - 6 < n \<and> n \<le> 0 then ''0.'' @ replicate (nat (- n)) CHR ''0'' @ ds
         else if k = 1 then ds @ CHR ''e'' # exponentText (n - 1)
         else take 1 ds @ CHR ''.'' # drop 1 ds @ CHR ''e'' # exponentText (n - 1))"

fun numberToString :: "jsnum \<Rightarrow> string" where
  "numberToString NaN = ''NaN''"
| "numberToString PosInf = ''Infinity''"
| "numberToString NegInf = ''-Infinity''"
| "numberToString (Fin x) =
     (if x = 0 then ''0''
      else if x < 0 then CHR ''-'' # positiveToString (- x)
      else positiveToString x)"

section \<open>Problem 2: the swap session (the useSwap hook)\<close>

text \<open>
  \<open>/^\d*\.?\d*$/.test(amount)\<close>: digits, then at most one point, then digits.
\<close>

definition amountPattern :: "string \<Rightarrow> bool" where
  "amountPattern s =
     (case dropWhile isDigit s of
        [] \<Rightarrow> True
      | c # r \<Rightarrow> c = CHR ''.'' \<and> list_all isDigit r)"

text \<open>The three state cells of the hook: \<open>formData\<close>, \<open>isLoading\<close> and \<open>error\<close>.\<close>

record FormData =
  fromToken :: "Token option"
  toToken :: "Token option"
  fromAmount :: string
  toAmount :: string

text \<open>
  Callbacks waiting in the runtime's timer queue: the debounced recomputation
  with the amount and the rate it was called with, and the continuation of
  \<open>executeSwap\<close> after its 2000 ms delay, with the \<open>formData\<close> of the render
  that called it.
\<close>

datatype task = Recalc string jsnum | CommitDone FormData

text \<open>
  Notifications: the plain "Tokens swapped!" toast, an error toast with its
  message, and the success toast with the amounts and currencies it reports
  (the formatting of its message is not modelled).
\<close>

datatype toast = SwappedToast | ErrorToast string | SuccessToast string string string string

record SwapState =
  formData :: FormData
  isLoading :: bool
  error :: "string option"
  runtime :: "task timerState"
  toasts :: "toast list"

text \<open>
  The state of the hook once mounted: the effects of the first render leave the
  initial values of the three cells as they are, and no timer is set.
\<close>

definition initialFormData :: FormData where
  "initialFormData = \<lparr> fromToken = None, toToken = None, fromAmount = [], toAmount = [] \<rparr>"

definition initialState :: SwapState where
  "initialState =
     \<lparr> formData = initialFormData, isLoading = False, error = None,
       runtime = debounceInit, toasts = [] \<rparr>"

definition setFormData :: "(FormData \<Rightarrow> FormData) \<Rightarrow> SwapState \<Rightarrow> SwapState" where
  "setFormData f s = s\<lparr> formData := f (formData s) \<rparr>"

text \<open>
  \<^verbatim>\<open>if (!formData.fromToken || !formData.toToken) return null;
  return calculateExchangeRate(formData.fromToken, formData.toToken);\<close>
\<close>

definition exchangeRate :: "SwapState \<Rightarrow> jsnum option" where
  "exchangeRate s =
     (if fromToken (formData s) = None \<or> toToken (formData s) = None then None
      else Some (calculateExchangeRate (fromToken (formData s)) (toToken (formData s))))"

definition validation :: "SwapState \<Rightarrow> ValidationResult" where
  "validation s =
     validateSwapData (fromToken (formData s)) (toToken (formData s)) (fromAmount (formData s))"

text \<open>
  The effect "auto-calculate to amount", run after a render in which
  \<open>formData.fromAmount\<close> or \<open>exchangeRate\<close> changed:
  \<^verbatim>\<open>if (exchangeRate && formData.fromAmount) {
    debouncedCalculateToAmount(formData.fromAmount, exchangeRate);
  } else { setFormData((prev) => ({ ...prev, toAmount: "" })); }\<close>
\<close>

definition autoCalculate :: "nat \<Rightarrow> SwapState \<Rightarrow> SwapState" where
  "autoCalculate now s =
     (case exchangeRate s of
        None \<Rightarrow> setFormData (\<lambda>prev. prev\<lparr> toAmount := [] \<rparr>) s
      | Some rate \<Rightarrow>
          if truthy rate \<and> fromAmount (formData s) \<noteq> []
          then s\<lparr> runtime := debounced 300 now (Recalc (fromAmount (formData s)) rate) (runtime s) \<rparr>
          else setFormData (\<lambda>prev. prev\<lparr> toAmount := [] \<rparr>) s)"

text \<open>
  The effect "clear error when form data changes", run after every render
  with a new \<open>formData\<close> object: \<^verbatim>\<open>if (error) setError(null);\<close>
\<close>

definition clearError :: "SwapState \<Rightarrow> SwapState" where
  "clearError s =
     (case error s of
        None \<Rightarrow> s
      | Some m \<Rightarrow> if m \<noteq> [] then s\<lparr> error := None \<rparr> else s)"

text \<open>
  The effects after an update that replaced \<open>formData\<close>; \<open>prev\<close> is the state of
  the render before the update, against which the dependencies are compared.
\<close>

definition effects :: "nat \<Rightarrow> SwapState \<Rightarrow> SwapState \<Rightarrow> SwapState" where
  "effects now prev s =
     clearError
       (if fromAmount (formData s) \<noteq> fromAmount (formData prev) \<or> exchangeRate s \<noteq> exchangeRate prev
        then autoCalculate now s else s)"

text \<open>The actions of the hook, each called at time \<open>now\<close>.\<close>

definition setFromToken :: "nat \<Rightarrow> Token option \<Rightarrow> SwapState \<Rightarrow> SwapState" where
  "setFromToken now token s = effects now s (setFormData (\<lambda>prev. prev\<lparr> fromToken := token \<rparr>) s)"

definition setToToken :: "nat \<Rightarrow> Token option \<Rightarrow> SwapState \<Rightarrow> SwapState" where
  "setToToken now token s = effects now s (setFormData (\<lambda>prev. prev\<lparr> toToken := token \<rparr>) s)"

definition setFromAmount :: "nat \<Rightarrow> string \<Rightarrow> SwapState \<Rightarrow> SwapState" where
  "setFromAmount now amount s =
     (if amount = [] \<or> amountPattern amount
      then effects now s (setFormData (\<lambda>prev. prev\<lparr> fromAmount := amount \<rparr>) s)
      else s)"

text \<open>
  \<^verbatim>\<open>if (amount === "" || /^\d*\.?\d*$/.test(amount)) {
    setFormData((prev) => ({ ...prev, toAmount: amount }));
    if (exchangeRate && amount) {
      const reverseAmount = calculateOutputAmount(amount, 1 / exchangeRate);
      setFormData((prev) => ({ ...prev, fromAmount: reverseAmount.toString() }));
    }
  }\<close>
\<close>

definition setToAmount :: "nat \<Rightarrow> string \<Rightarrow> SwapState \<Rightarrow> SwapState" where
  "setToAmount now amount s =
     (if amount = [] \<or> amountPattern amount
      then effects now s
             (let s1 = setFormData (\<lambda>prev. prev\<lparr> toAmount := amount \<rparr>) s
              in case exchangeRate s of
                   None \<Rightarrow> s1
                 | Some rate \<Rightarrow>
                     if truthy rate \<and> amount \<noteq> []
                     then setFormData (\<lambda>prev. prev\<lparr> fromAmount :=
                            numberToString (calculateOutputAmount (Str amount) (js_div (Fin 1) rate)) \<rparr>) s1
                     else s1)
      else s)"

definition swapTokens :: "nat \<Rightarrow> SwapState \<Rightarrow> SwapState" where
  "swapTokens now s =
     (effects now s
        (setFormData (\<lambda>prev. prev\<lparr> fromToken := toToken prev, toToken := fromToken prev,
                                  fromAmount := toAmount prev, toAmount := fromAmount prev \<rparr>) s))
     \<lparr> toasts := toasts s @ [SwappedToast] \<rparr>"

definition resetForm :: "nat \<Rightarrow> SwapState \<Rightarrow> SwapState" where
  "resetForm now s = effects now s (s\<lparr> formData := initialFormData, error := None \<rparr>)"

text \<open>
  \<open>executeSwap\<close> up to its \<open>await\<close>: a failed validation sets the error, shows the
  error toast and returns; otherwise \<open>isLoading\<close> is set, the error cleared and
  the 2000 ms timer of the simulated commit started.
  \<^verbatim>\<open>if (!validation.isValid) {
    setError(validation.error || "Invalid swap data");
    toast.error(validation.error || "Invalid swap data", ...);
    return;
  }
  setIsLoading(true);
  setError(null);
  try { await new Promise((resolve) => setTimeout(resolve, 2000)); ...\<close>
\<close>

definition validationMessage :: "ValidationResult \<Rightarrow> string" where
  "validationMessage v =
     (case ValidationResult.error v of
        None \<Rightarrow> ''Invalid swap data''
      | Some m \<Rightarrow> if m \<noteq> [] then m else ''Invalid swap data'')"

definition setTimeout :: "nat \<Rightarrow> nat \<Rightarrow> 'a \<Rightarrow> 'a timerState \<Rightarrow> 'a timerState" where
  "setTimeout delay now cb st =
     st\<lparr> timers := timers st @ [(nextId st, now + delay, cb)], nextId := Suc (nextId st) \<rparr>"

definition executeSwap :: "nat \<Rightarrow> SwapState \<Rightarrow> SwapState" where
  "executeSwap now s =
     (if \<not> isValid (validation s)
      then s\<lparr> error := Some (validationMessage (validation s)),
              toasts := toasts s @ [ErrorToast (validationMessage (validation s))] \<rparr>
      else s\<lparr> isLoading := True, error := None,
              runtime := setTimeout 2000 now (CommitDone (formData s)) (runtime s) \<rparr>)"

text \<open>
  The rest of \<open>executeSwap\<close>, run when the delay has passed: the success toast
  with the captured \<open>formData\<close>, \<open>resetForm()\<close>, and \<open>setIsLoading(false)\<close> of the
  \<open>finally\<close> block. No statement of the \<open>try\<close> block throws, so its handler is
  not reached.
\<close>

definition tokenCurrency :: "Token option \<Rightarrow> string" where
  "tokenCurrency t = (case t of None \<Rightarrow> [] | Some tok \<Rightarrow> Token.currency tok)"

definition commitDone :: "nat \<Rightarrow> FormData \<Rightarrow> SwapState \<Rightarrow> SwapState" where
  "commitDone now fd s =
     effects now s
       (s\<lparr> toasts := toasts s @ [SuccessToast (fromAmount fd) (tokenCurrency (fromToken fd))
                                     (toAmount fd) (tokenCurrency (toToken fd))],
           formData := initialFormData, error := None, isLoading := False \<rparr>)"

text \<open>
  The debounced function of the hook, run by its timer:
  \<^verbatim>\<open>(amount, rate) => {
    if (rate && amount) {
      const outputAmount = calculateOutputAmount(amount, rate);
      setFormData((prev) => ({ ...prev, toAmount: outputAmount.toString() }));
    } else { setFormData((prev) => ({ ...prev, toAmount: "" })); }
  }\<close>
\<close>

definition calculateToAmount :: "nat \<Rightarrow> string \<Rightarrow> jsnum \<Rightarrow> SwapState \<Rightarrow> SwapState" where
  "calculateToAmount now amount rate s =
     effects now s
       (if truthy rate \<and> amount \<noteq> []
        then setFormData (\<lambda>prev. prev\<lparr> toAmount :=
               numberToString (calculateOutputAmount (Str amount) rate) \<rparr>) s
        else setFormData (\<lambda>prev. prev\<lparr> toAmount := [] \<rparr>) s)"

text \<open>
  The event loop of the session up to time \<open>t\<close>: the timers due by \<open>t\<close> leave
  the queue and their callbacks run in the order of their due times.
\<close>

fun runTask :: "nat \<times> nat \<times> task \<Rightarrow> SwapState \<Rightarrow> SwapState" where
  "runTask (i, due, Recalc amount rate) s = calculateToAmount due amount rate s"
| "runTask (i, due, CommitDone fd) s = commitDone due fd s"

definition runDue :: "nat \<Rightarrow> SwapState \<Rightarrow> SwapState" where
  "runDue t s =
     fold runTask
       (sort_key (\<lambda>tm. fst (snd tm)) (filter (\<lambda>tm. fst (snd tm) \<le> t) (timers (runtime s))))
       (s\<lparr> runtime := runTimers t (runtime s) \<rparr>)"

text \<open>A session is a sequence of timed events: the actions, and the passing of time.\<close>

datatype event =
    SetFromToken "Token option"
  | SetToToken "Token option"
  | SetFromAmount string
  | SetToAmount string
  | SwapTokens
  | ResetForm
  | ExecuteSwap
  | Wait

fun perform :: "nat \<Rightarrow> event \<Rightarrow> SwapState \<Rightarrow> SwapState" where
  "perform now (SetFromToken token) s = setFromToken now token s"
| "perform now (SetToToken token) s = setToToken now token s"
| "perform now (SetFromAmount amount) s = setFromAmount now amount s"
| "perform now (SetToAmount amount) s = setToAmount now amount s"
| "perform now SwapTokens s = swapTokens now s"
| "perform now ResetForm s = resetForm now s"
| "perform now ExecuteSwap s = executeSwap now s"
| "perform now Wait s = s"

definition session :: "(nat \<times> event) list \<Rightarrow> SwapState" where
  "session evs = fold (\<lambda>(t, ev) s. perform t ev (runDue t s)) evs initialState"

text \<open>
  Sessions for evaluating the code: ETH at 2000 and BTC at 30000 with the amount
  10 entered, the same once the debounced recomputation has run, and a session
  whose source token has the price 0.
\<close>

definition ethBtc :: "(nat \<times> event) list" where
  "ethBtc = [(0, SetFromToken (Some (testToken ''ETH'' (Fin 2000)))),
             (0, SetToToken (Some (testToken ''BTC'' (Fin 30000)))),
             (10, SetFromAmount ''10'')]"

definition readyState :: SwapState where
  "readyState = session (ethBtc @ [(310, Wait)])"

definition zeroRateState :: SwapState where
  "zeroRateState =
     setToToken 0 (Some (testToken ''USDC'' (Fin 1)))
       (setFromToken 0 (Some (testToken ''ZERO'' (Fin 0))) initialState)"

text \<open>
  The invariant on the amount texts of a session, and the numbers that
  \<open>toString\<close> writes in plain decimal notation: 0 and the values from
  \<open>10^-6\<close> up to, not including, \<open>10^21\<close>.
\<close>

definition amountsOk :: "SwapState \<Rightarrow> bool" where
  "amountsOk s \<longleftrightarrow>
     amountPattern (fromAmount (formData s)) \<and> amountPattern (toAmount (formData s))"

fun plainNumber :: "jsnum \<Rightarrow> bool" where
  "plainNumber (Fin x) = (x = 0 \<or> (1 / 10 ^ 6 \<le> x \<and> x < 10 ^ 21))"
| "plainNumber v = False"

text \<open>
  A session for evaluating the code: two tokens priced 1 and the amount
  0.0000001 entered, then the debounce delay passes.
\<close>

definition tinyAmount :: "(nat \<times> event) list" where
  "tinyAmount = [(0, SetFromToken (Some (testToken ''USDC'' (Fin 1)))),
                 (0, SetToToken (Some (testToken ''BUSD'' (Fin 1)))),
                 (0, SetFromAmount ''0.0000001''),
                 (300, Wait)]"

section \<open>Theorems\<close>

subsection \<open>Problem 1\<close>

lemma sum_1_to_Suc: "sum_1_to (Suc n) = sum_1_to n + Suc n"
  by (simp add: sum_1_to_def)

lemma sum_1_to_closed: "real (sum_1_to n) = real n * (real n + 1) / 2"
  by (induction n) (simp_all add: sum_1_to_Suc sum_1_to_def field_simps)

lemma sum_to_n_b_loop_from:
  "sum_to_n_b_loop (real n) (real (Suc n - d)) acc = acc + real (\<Sum>{Suc n - d..n})"
proof (induction d arbitrary: acc)
  case 0
  have "\<not> real (Suc n - 0) \<le> real n" by simp
  then show ?case by (subst sum_to_n_b_loop.simps) (simp del: of_nat_Suc)
next
  case (Suc d)
  show ?case
  proof (cases "Suc d \<le> Suc n")
    case True
    then have k: "Suc n - d = Suc (Suc n - Suc d)" by simp
    have le: "real (Suc n - Suc d) \<le> real n" using True by simp
    have set: "{Suc n - Suc d..n} = insert (Suc n - Suc d) {Suc n - d..n}"
      using True by auto
    have "sum_to_n_b_loop (real n) (real (Suc n - Suc d)) acc
        = sum_to_n_b_loop (real n) (real (Suc n - Suc d) + 1) (acc + real (Suc n - Suc d))"
      using le by (subst sum_to_n_b_loop.simps) simp
    also have "real (Suc n - Suc d) + 1 = real (Suc n - d)" using k by simp
    also have "sum_to_n_b_loop (real n) (real (Suc n - d)) (acc + real (Suc n - Suc d))
        = acc + real (Suc n - Suc d) + real (\<Sum>{Suc n - d..n})"
      by (rule Suc.IH)
    also have "\<dots> = acc + real (\<Sum>{Suc n - Suc d..n})"
      by (simp only: set) (simp add: k)
    finally show ?thesis .
  next
    case False
    then have "Suc n - Suc d = Suc n - d" by simp
    then show ?thesis using Suc.IH by simp
  qed
qed

lemma sum_to_n_b_sum: "sum_to_n_b (real n) = real (sum_1_to n)"
  using sum_to_n_b_loop_from [of n n 0]
  by (simp add: sum_to_n_b_def sum_1_to_def)

lemma sum_to_n_c_sum: "sum_to_n_c (real n) = real (sum_1_to n)"
proof (induction n)
  case 0
  show ?case by (simp add: sum_to_n_c.simps sum_1_to_def)
next
  case (Suc n)
  show ?case
  proof (cases "n = 0")
    case True
    then show ?thesis by (simp add: sum_to_n_c.simps sum_1_to_def)
  next
    case False
    then have "\<not> real (Suc n) \<le> 1" by simp
    then have "sum_to_n_c (real (Suc n)) = real (Suc n) + sum_to_n_c (real (Suc n) - 1)"
      by (subst sum_to_n_c.simps) simp
    also have "real (Suc n) - 1 = real n" by simp
    finally show ?thesis by (simp add: Suc.IH sum_1_to_Suc)
  qed
qed

text \<open>
  Claim C10. For every non-negative integer \<open>n\<close> the three implementations
  agree: each of \<open>sum_to_n_a n\<close>, \<open>sum_to_n_b n\<close> and \<open>sum_to_n_c n\<close> is the sum
  of the integers \<open>1..n\<close>, which is \<open>n * (n + 1) / 2\<close>.
\<close>

theorem sum_to_n_agree:
  "sum_to_n_a (real n) = real (sum_1_to n) \<and>
   sum_to_n_b (real n) = real (sum_1_to n) \<and>
   sum_to_n_c (real n) = real (sum_1_to n) \<and>
   real (sum_1_to n) = real n * (real n + 1) / 2"
  by (simp add: sum_to_n_a_def sum_to_n_b_sum sum_to_n_c_sum sum_1_to_closed)

theorem sum_to_n_agree_witness:
  "sum_to_n_a 5 = 15 \<and> sum_to_n_b 5 = 15 \<and> sum_to_n_c 5 = 15 \<and> sum_1_to 5 = 15"
proof -
  have "sum_1_to 5 = 15" by (simp add: sum_1_to_def eval_nat_numeral)
  then show ?thesis using sum_to_n_agree [of 5] by simp
qed

subsection \<open>Exchange rate and validation\<close>

lemma falsy_Some_iff: "falsy (Some p) \<longleftrightarrow> p = Fin 0 \<or> p = NaN"
  by (cases p) (simp_all add: falsy_def)

lemma calculateExchangeRate_falsy:
  "falsy (optPrice f) \<or> falsy (optPrice t) \<Longrightarrow> calculateExchangeRate f t = Fin 0"
  by (auto simp: calculateExchangeRate_def)

lemma calculateExchangeRate_truthy:
  assumes "Token.price a = Some p" "Token.price b = Some q" "truthy p" "truthy q"
  shows "calculateExchangeRate (Some a) (Some b) = js_div p q"
  using assms by (cases p) (auto simp: calculateExchangeRate_def optPrice_def falsy_def)

text \<open>
  Claim C3, as the code has it. \<open>calculateExchangeRate\<close> returns 0 when either
  token is null or its price is missing, zero or NaN, and otherwise returns
  \<open>fromToken.price / toToken.price\<close>, also when a price is negative. With
  ETH at 2000 and BTC at 30000 the rate is within 0.00005 of 0.0667.
\<close>

theorem calculateExchangeRate_spec:
  "calculateExchangeRate None t = Fin 0 \<and>
   calculateExchangeRate f None = Fin 0 \<and>
   (Token.price a = None \<or> Token.price a = Some (Fin 0) \<or> Token.price a = Some NaN
      \<longrightarrow> calculateExchangeRate (Some a) t = Fin 0 \<and> calculateExchangeRate f (Some a) = Fin 0) \<and>
   (Token.price a = Some p \<and> Token.price b = Some q \<and> truthy p \<and> truthy q
      \<longrightarrow> calculateExchangeRate (Some a) (Some b) = js_div p q) \<and>
   (Token.price a = Some (Fin x) \<and> Token.price b = Some (Fin y) \<and> x \<noteq> 0 \<and> y \<noteq> 0
      \<longrightarrow> calculateExchangeRate (Some a) (Some b) = Fin (x / y)) \<and>
   (\<exists>r. calculateExchangeRate (Some (testToken ''ETH'' (Fin 2000)))
          (Some (testToken ''BTC'' (Fin 30000))) = Fin r \<and> \<bar>r - 0.0667\<bar> < 0.00005)"
proof -
  have 1: "calculateExchangeRate None t = Fin 0" "calculateExchangeRate f None = Fin 0"
    by (simp_all add: calculateExchangeRate_falsy optPrice_def falsy_def)
  have 2: "calculateExchangeRate (Some a) t = Fin 0 \<and> calculateExchangeRate f (Some a) = Fin 0"
    if "Token.price a = None \<or> Token.price a = Some (Fin 0) \<or> Token.price a = Some NaN"
  proof -
    have "falsy (optPrice (Some a))" using that by (auto simp: optPrice_def falsy_def)
    then show ?thesis by (simp add: calculateExchangeRate_falsy)
  qed
  have 3: "calculateExchangeRate (Some a) (Some b) = js_div p q"
    if "Token.price a = Some p \<and> Token.price b = Some q \<and> truthy p \<and> truthy q"
    using that by (simp add: calculateExchangeRate_truthy)
  have 4: "calculateExchangeRate (Some a) (Some b) = Fin (x / y)"
    if "Token.price a = Some (Fin x) \<and> Token.price b = Some (Fin y) \<and> x \<noteq> 0 \<and> y \<noteq> 0"
    using that calculateExchangeRate_truthy [of a "Fin x" b "Fin y"] by simp
  have "calculateExchangeRate (Some (testToken ''ETH'' (Fin 2000)))
          (Some (testToken ''BTC'' (Fin 30000))) = Fin (2000 / 30000)"
    using calculateExchangeRate_truthy [of "testToken ''ETH'' (Fin 2000)" "Fin 2000"
            "testToken ''BTC'' (Fin 30000)" "Fin 30000"]
    by (simp add: testToken_def)
  moreover have "\<bar>(2000 / 30000 :: real) - 0.0667\<bar> < 0.00005" by simp
  ultimately have 5: "\<exists>r. calculateExchangeRate (Some (testToken ''ETH'' (Fin 2000)))
          (Some (testToken ''BTC'' (Fin 30000))) = Fin r \<and> \<bar>r - 0.0667\<bar> < 0.00005"
    by blast
  from 1 2 3 4 5 show ?thesis by blast
qed

theorem calculateExchangeRate_spec_witness:
  "calculateExchangeRate (Some (testToken ''ZERO'' (Fin 0))) (Some (testToken ''BTC'' (Fin 30000))) = Fin 0
   \<and> calculateExchangeRate (Some (testToken ''USDC'' (Fin 1))) (Some (testToken ''ETH'' (Fin 2000)))
       = Fin (1 / 2000)
   \<and> calculateExchangeRate (Some (testToken ''A'' (Fin (- 5)))) (Some (testToken ''USDC'' (Fin 1)))
       = Fin (- 5)"
  using calculateExchangeRate_spec [of "Some (testToken ''BTC'' (Fin 30000))" None
          "testToken ''ZERO'' (Fin 0)" "Fin 0" "testToken ''BTC'' (Fin 30000)" "Fin 30000" 0 30000]
        calculateExchangeRate_spec [of None None
          "testToken ''USDC'' (Fin 1)" "Fin 1" "testToken ''ETH'' (Fin 2000)" "Fin 2000" 1 2000]
        calculateExchangeRate_spec [of None None
          "testToken ''A'' (Fin (- 5))" "Fin (- 5)" "testToken ''USDC'' (Fin 1)" "Fin 1" "- 5" 1]
  by (simp add: testToken_def)

text \<open>
  The claim as written fails for a negative price: the token has no positive
  price, and the result is the quotient, not 0.
\<close>

theorem calculateExchangeRate_negative_price:
  "calculateExchangeRate (Some (testToken ''A'' (Fin (- 5)))) (Some (testToken ''USDC'' (Fin 1)))
     = Fin (- 5)
   \<and> Fin (- 5) \<noteq> Fin 0
   \<and> \<not> js_gt (Fin (- 5)) (Fin 0)"
  by (simp add: calculateExchangeRate_def optPrice_def falsy_def testToken_def js_gt_def)

text \<open>
  Claim C4. \<open>validateSwapData\<close> checks, in this order, that \<open>fromToken\<close> is
  present, that \<open>toToken\<close> is present, that the two currencies differ and that
  \<open>isValidAmount fromAmount\<close> holds. The first failing check decides the
  result, \<open>isValid = false\<close> with its own message, whatever the later arguments
  are; the result is \<open>isValid = true\<close> with no error when all four pass.
\<close>

theorem validateSwapData_order:
  "validateSwapData None tt amt
     = \<lparr> isValid = False, error = Some ''Please select a token to swap from'' \<rparr> \<and>
   validateSwapData (Some f) None amt
     = \<lparr> isValid = False, error = Some ''Please select a token to swap to'' \<rparr> \<and>
   (Token.currency f = Token.currency t \<longrightarrow>
      validateSwapData (Some f) (Some t) amt
        = \<lparr> isValid = False, error = Some ''Cannot swap the same token'' \<rparr>) \<and>
   (Token.currency f \<noteq> Token.currency t \<and> \<not> isValidAmount amt \<longrightarrow>
      validateSwapData (Some f) (Some t) amt
        = \<lparr> isValid = False, error = Some ''Please enter a valid amount'' \<rparr>) \<and>
   (Token.currency f \<noteq> Token.currency t \<and> isValidAmount amt \<longrightarrow>
      validateSwapData (Some f) (Some t) amt = \<lparr> isValid = True, error = None \<rparr>) \<and>
   (isValid (validateSwapData ft tt amt) \<longleftrightarrow>
      (\<exists>f' t'. ft = Some f' \<and> tt = Some t'
         \<and> Token.currency f' \<noteq> Token.currency t' \<and> isValidAmount amt))"
  by (auto simp: validateSwapData_def split: option.splits)

lemma isValidAmount_10: "isValidAmount ''10''"
  by (simp add: isValidAmount_def trim_def parseFloat_def parseUnsigned_def parseExponent_def
      scale10_def digitsValue_def digitVal_def isDigit_def isWhiteSpace_def js_gt_def isNaN_def)

lemma isValidAmount_empty: "\<not> isValidAmount []"
  by (simp add: isValidAmount_def)

theorem validateSwapData_order_witness:
  "validateSwapData None (Some (testToken ''BTC'' (Fin 30000))) ''10''
     = \<lparr> isValid = False, error = Some ''Please select a token to swap from'' \<rparr> \<and>
   validateSwapData (Some (testToken ''ETH'' (Fin 2000))) None ''10''
     = \<lparr> isValid = False, error = Some ''Please select a token to swap to'' \<rparr> \<and>
   validateSwapData (Some (testToken ''ETH'' (Fin 2000))) (Some (testToken ''ETH'' (Fin 2000))) ''10''
     = \<lparr> isValid = False, error = Some ''Cannot swap the same token'' \<rparr> \<and>
   validateSwapData (Some (testToken ''ETH'' (Fin 2000))) (Some (testToken ''BTC'' (Fin 30000))) []
     = \<lparr> isValid = False, error = Some ''Please enter a valid amount'' \<rparr> \<and>
   validateSwapData (Some (testToken ''ETH'' (Fin 2000))) (Some (testToken ''BTC'' (Fin 30000))) ''10''
     = \<lparr> isValid = True, error = None \<rparr>"
  using validateSwapData_order [of "Some (testToken ''BTC'' (Fin 30000))" "''10''"
          "testToken ''ETH'' (Fin 2000)" "testToken ''ETH'' (Fin 2000)" None]
        validateSwapData_order [of None "[]"
          "testToken ''ETH'' (Fin 2000)" "testToken ''BTC'' (Fin 30000)" None]
        validateSwapData_order [of None "''10''"
          "testToken ''ETH'' (Fin 2000)" "testToken ''BTC'' (Fin 30000)" None]
        isValidAmount_10 isValidAmount_empty
  by (simp add: testToken_def)

subsection \<open>Deduplication of the price feed\<close>

lemma js_lt_irrefl: "\<not> js_lt a a"
  by (cases a) simp_all

lemma js_lt_trans: "js_lt a b \<Longrightarrow> js_lt b c \<Longrightarrow> js_lt a c"
  by (cases a; cases b; cases c) simp_all

lemma latestInv_step:
  assumes "latestInv tv ys m"
  shows "latestInv tv (ys @ [x]) (addSample tv x m)"
proof (cases "map_of m (PriceSample.currency x)")
  case None
  then have "PriceSample.currency x \<notin> dom (map_of m)" by (simp add: domIff)
  moreover have "dom (map_of m) = PriceSample.currency ` set ys"
    using assms by (simp add: latestInv_def)
  ultimately have new: "\<forall>s' \<in> set ys. PriceSample.currency s' \<noteq> PriceSample.currency x"
    by force
  show ?thesis
    using assms None new
    unfolding latestInv_def addSample_def
    by (auto simp: AList.distinct_update AList.update_conv' js_gt_def js_lt_irrefl split: if_splits)
next
  case (Some e)
  show ?thesis
  proof (cases "js_gt (tv (date x)) (tv (date e))")
    case True
    have "\<not> js_gt (tv (date s')) (tv (date x))"
      if "s' \<in> set ys" "PriceSample.currency s' = PriceSample.currency x" for s'
    proof
      assume "js_gt (tv (date s')) (tv (date x))"
      with True have "js_gt (tv (date s')) (tv (date e))"
        unfolding js_gt_def by (blast intro: js_lt_trans)
      with assms Some that show False by (auto simp: latestInv_def)
    qed
    then show ?thesis
      using assms Some True
      unfolding latestInv_def addSample_def
      by (auto simp: AList.distinct_update AList.update_conv' js_gt_def js_lt_irrefl split: if_splits)
  next
    case False
    have "PriceSample.currency x \<in> dom (map_of m)" using Some by blast
    then have "dom (map_of m) = PriceSample.currency ` set (ys @ [x])"
      using assms by (auto simp: latestInv_def)
    moreover have "addSample tv x m = m"
      using Some False by (simp add: addSample_def)
    ultimately show ?thesis
      using assms Some False
      unfolding latestInv_def
      by (auto simp del: map_of_eq_Some_iff)
  qed
qed

lemma latestInv_fold:
  "latestInv tv ys m \<Longrightarrow> latestInv tv (ys @ xs) (fold (addSample tv) xs m)"
proof (induction xs arbitrary: ys m)
  case Nil
  then show ?case by simp
next
  case (Cons x xs)
  from latestInv_step [OF Cons.prems] have "latestInv tv (ys @ [x]) (addSample tv x m)" .
  from Cons.IH [OF this] show ?case by simp
qed

lemma latestInv_result: "latestInv tv xs (fold (addSample tv) xs [])"
  using latestInv_fold [of tv "[]" "[]" xs] by (simp add: latestInv_def)

lemma js_le_iff_not_gt: "isFinite a \<Longrightarrow> isFinite b \<Longrightarrow> js_le a b \<longleftrightarrow> \<not> js_gt a b"
  by (cases a; cases b) (auto simp: js_le_def js_gt_def)

lemma processTokenData_currencies:
  "map Token.currency (processTokenData tv xs) = map fst (fold (addSample tv) xs [])"
proof -
  have "\<forall>k s. map_of (fold (addSample tv) xs []) k = Some s \<longrightarrow> PriceSample.currency s = k"
    using latestInv_result [of tv xs] by (simp add: latestInv_def del: map_of_eq_Some_iff)
  moreover have "distinct (map fst (fold (addSample tv) xs []))"
    using latestInv_result [of tv xs] by (simp add: latestInv_def)
  ultimately have "\<forall>p \<in> set (fold (addSample tv) xs []). PriceSample.currency (snd p) = fst p"
    by (metis map_of_is_SomeI prod.collapse)
  then show ?thesis
    by (simp add: processTokenData_def sampleToken_def comp_def)
qed

text \<open>
  Claim C2. \<open>processTokenData\<close> returns exactly one token per distinct currency
  of the input, and the token's price and \<open>lastUpdated\<close> are those of a sample
  of that currency whose date is maximal: no sample of the currency has a later
  date, and every sample of the currency with a valid date is at most as late.
\<close>

theorem processTokenData_latest:
  "distinct (map Token.currency (processTokenData tv xs)) \<and>
   set (map Token.currency (processTokenData tv xs)) = set (map PriceSample.currency xs) \<and>
   (\<forall>t \<in> set (processTokenData tv xs). \<exists>s \<in> set xs.
      Token.currency t = PriceSample.currency s \<and>
      Token.price t = PriceSample.price s \<and>
      lastUpdated t = date s \<and>
      iconUrl t = getTokenIconUrl (PriceSample.currency s) \<and>
      (\<forall>s' \<in> set xs. PriceSample.currency s' = Token.currency t \<longrightarrow>
         \<not> js_gt (tv (date s')) (tv (date s)) \<and>
         (isFinite (tv (date s')) \<and> isFinite (tv (date s)) \<longrightarrow>
            js_le (tv (date s')) (tv (date s)))))"
proof -
  let ?m = "fold (addSample tv) xs []"
  have inv: "latestInv tv xs ?m" by (rule latestInv_result)
  have d: "distinct (map fst ?m)" using inv by (simp add: latestInv_def)
  have 1: "distinct (map Token.currency (processTokenData tv xs))"
    using d by (simp add: processTokenData_currencies)
  have "fst ` set ?m = dom (map_of ?m)" by (simp add: dom_map_of_conv_image_fst)
  also have "\<dots> = PriceSample.currency ` set xs" using inv by (simp add: latestInv_def)
  finally have 2: "set (map Token.currency (processTokenData tv xs)) = set (map PriceSample.currency xs)"
    by (simp add: processTokenData_currencies)
  have 3: "\<exists>s \<in> set xs.
      Token.currency t = PriceSample.currency s \<and>
      Token.price t = PriceSample.price s \<and>
      lastUpdated t = date s \<and>
      iconUrl t = getTokenIconUrl (PriceSample.currency s) \<and>
      (\<forall>s' \<in> set xs. PriceSample.currency s' = Token.currency t \<longrightarrow>
         \<not> js_gt (tv (date s')) (tv (date s)) \<and>
         (isFinite (tv (date s')) \<and> isFinite (tv (date s)) \<longrightarrow>
            js_le (tv (date s')) (tv (date s))))"
    if "t \<in> set (processTokenData tv xs)" for t
  proof -
    from that obtain k s where ks: "(k, s) \<in> set ?m" and t: "t = sampleToken s"
      by (auto simp: processTokenData_def)
    from ks d have "map_of ?m k = Some s" by simp
    with inv have s: "PriceSample.currency s = k" "s \<in> set xs"
      and mx: "\<forall>s' \<in> set xs. PriceSample.currency s' = k \<longrightarrow> \<not> js_gt (tv (date s')) (tv (date s))"
      unfolding latestInv_def by blast+
    show ?thesis
    proof (rule bexI [OF _ s(2)], intro conjI ballI impI)
      fix s' assume "s' \<in> set xs" "PriceSample.currency s' = Token.currency t"
      then show "\<not> js_gt (tv (date s')) (tv (date s))"
        using mx s t by (simp add: sampleToken_def)
      then show "js_le (tv (date s')) (tv (date s))"
        if "isFinite (tv (date s')) \<and> isFinite (tv (date s))"
        using that by (simp add: js_le_iff_not_gt)
    qed (simp_all add: t sampleToken_def)
  qed
  from 1 2 3 show ?thesis by blast
qed

lemma exampleFeed_result:
  "processTokenData exampleTimeValue exampleFeed =
     [\<lparr> currency = ''ETH'', price = Some (Fin 1650), lastUpdated = ''2023-08-29T07:10:50.000Z'',
        iconUrl = ''https://raw.githubusercontent.com/Switcheo/token-icons/main/tokens/ETH.svg'' \<rparr>,
      \<lparr> currency = ''BTC'', price = Some (Fin 26002), lastUpdated = ''2023-08-29T07:10:50.000Z'',
        iconUrl = ''https://raw.githubusercontent.com/Switcheo/token-icons/main/tokens/BTC.svg'' \<rparr>]"
  by (simp add: processTokenData_def exampleFeed_def addSample_def exampleTimeValue_def
      sampleToken_def getTokenIconUrl_def js_gt_def)

theorem processTokenData_latest_witness:
  "processTokenData exampleTimeValue exampleFeed =
     [\<lparr> currency = ''ETH'', price = Some (Fin 1650), lastUpdated = ''2023-08-29T07:10:50.000Z'',
        iconUrl = ''https://raw.githubusercontent.com/Switcheo/token-icons/main/tokens/ETH.svg'' \<rparr>,
      \<lparr> currency = ''BTC'', price = Some (Fin 26002), lastUpdated = ''2023-08-29T07:10:50.000Z'',
        iconUrl = ''https://raw.githubusercontent.com/Switcheo/token-icons/main/tokens/BTC.svg'' \<rparr>]
   \<and> distinct (map Token.currency (processTokenData exampleTimeValue exampleFeed))
   \<and> set (map Token.currency (processTokenData exampleTimeValue exampleFeed)) = {''ETH'', ''BTC''}"
  using processTokenData_latest [of exampleTimeValue exampleFeed]
  by (simp add: processTokenData_def exampleFeed_def addSample_def exampleTimeValue_def
      sampleToken_def getTokenIconUrl_def js_gt_def)

subsection \<open>The price cache\<close>

lemma fetchPrices_error:
  "fetchPrices r = Inl err \<Longrightarrow> err = ''Failed to fetch price data. Please try again.''"
  by (auto simp: fetchPrices_def split: reply.splits if_splits option.splits)

text \<open>
  Claim C1. For every cache state and call to \<open>getTokens\<close>: an entry younger
  than the 30 s TTL is returned unchanged and no request is issued; otherwise
  one request is issued, and on success the samples are deduplicated into
  tokens, the entry is replaced by these tokens with the new time, and they are
  returned; on failure the old entry's data is returned when there is one, and
  the error is thrown only when there is none.
\<close>

theorem getTokens_cache:
  assumes "CACHE_DURATION svc = 30000"
  shows
   "(cache svc ''tokens'' = Some e \<and> now - timestamp e < 30000 \<longrightarrow>
       getTokens tv svc now r now' = (Inr (data e), svc, 0)) \<and>
    ((cache svc ''tokens'' = None \<or> (cache svc ''tokens'' = Some e \<and> 30000 \<le> now - timestamp e))
       \<and> fetchPrices r = Inr priceData \<longrightarrow>
       getTokens tv svc now r now'
         = (Inr (processTokenData tv priceData),
            svc\<lparr> cache := (cache svc)(''tokens'' \<mapsto>
                   \<lparr> data = processTokenData tv priceData, timestamp = now' \<rparr>) \<rparr>,
            1)) \<and>
    (cache svc ''tokens'' = Some e \<and> 30000 \<le> now - timestamp e \<and> fetchPrices r = Inl err \<longrightarrow>
       getTokens tv svc now r now' = (Inr (data e), svc, 1)) \<and>
    (cache svc ''tokens'' = None \<and> fetchPrices r = Inl err \<longrightarrow>
       getTokens tv svc now r now' = (Inl err, svc, 1)) \<and>
    (fst (getTokens tv svc now r now') = Inl err \<longrightarrow>
       cache svc ''tokens'' = None \<and> fetchPrices r = Inl err)"
  using assms
  by (auto simp: getTokens_def refetch_def Let_def split: option.splits sum.splits)

theorem getTokens_cache_witness:
  "getTokens exampleTimeValue newPriceService 1000 (Response True 200 (Some exampleFeed)) 1250
     = (Inr (processTokenData exampleTimeValue exampleFeed),
        newPriceService\<lparr> cache := [''tokens'' \<mapsto>
          \<lparr> data = processTokenData exampleTimeValue exampleFeed, timestamp = 1250 \<rparr>] \<rparr>,
        1)
   \<and> getTokens exampleTimeValue
        (newPriceService\<lparr> cache := [''tokens'' \<mapsto> \<lparr> data = [], timestamp = 1250 \<rparr>] \<rparr>)
        31249 NetworkFailure 31300
     = (Inr [], newPriceService\<lparr> cache := [''tokens'' \<mapsto> \<lparr> data = [], timestamp = 1250 \<rparr>] \<rparr>, 0)
   \<and> getTokens exampleTimeValue
        (newPriceService\<lparr> cache := [''tokens'' \<mapsto> \<lparr> data = [], timestamp = 1250 \<rparr>] \<rparr>)
        31250 NetworkFailure 31300
     = (Inr [], newPriceService\<lparr> cache := [''tokens'' \<mapsto> \<lparr> data = [], timestamp = 1250 \<rparr>] \<rparr>, 1)
   \<and> getTokens exampleTimeValue newPriceService 1000 (Response False 500 None) 1250
     = (Inl ''Failed to fetch price data. Please try again.'', newPriceService, 1)"
proof -
  let ?old = "\<lparr> data = [], timestamp = 1250 \<rparr>"
  let ?svc = "newPriceService\<lparr> cache := [''tokens'' \<mapsto> ?old] \<rparr>"
  have d: "CACHE_DURATION newPriceService = 30000" "CACHE_DURATION ?svc = 30000"
    by (simp_all add: newPriceService_def)
  have c: "cache newPriceService ''tokens'' = None" "cache ?svc ''tokens'' = Some ?old"
    by (simp_all add: newPriceService_def)
  have f: "fetchPrices (Response True 200 (Some exampleFeed)) = Inr exampleFeed"
    "fetchPrices NetworkFailure = Inl ''Failed to fetch price data. Please try again.''"
    "fetchPrices (Response False 500 None) = Inl ''Failed to fetch price data. Please try again.''"
    by (simp_all add: fetchPrices_def)
  show ?thesis
    using getTokens_cache [OF d(1), of ?old 1000 exampleTimeValue
            "Response True 200 (Some exampleFeed)" 1250 exampleFeed "[]"]
          getTokens_cache [OF d(2), of ?old 31249 exampleTimeValue NetworkFailure 31300 "[]" "[]"]
          getTokens_cache [OF d(2), of ?old 31250 exampleTimeValue NetworkFailure 31300 "[]"
            "''Failed to fetch price data. Please try again.''"]
          getTokens_cache [OF d(1), of ?old 1000 exampleTimeValue "Response False 500 None" 1250 "[]"
            "''Failed to fetch price data. Please try again.''"]
          c f
    by (simp add: newPriceService_def)
qed

subsection \<open>Debounce\<close>

lemma callAt_pending:
  assumes "timers st = [(i, t0 + delay, a0)]" "timeoutId st = Some i"
    and "t0 \<le> t1" "t1 < t0 + delay"
  shows "timers (callAt delay (t1, a1) st) = [(nextId st, t1 + delay, a1)]
       \<and> timeoutId (callAt delay (t1, a1) st) = Some (nextId st)
       \<and> executed (callAt delay (t1, a1) st) = executed st"
  using assms by (simp add: callAt_def debounced_def runTimers_def clearTimeout_def)

lemma callsAt_pending:
  assumes "timers st = [(i, t0 + delay, a0)]" "timeoutId st = Some i"
    and "burst delay ((t0, a0) # es)"
  shows "\<exists>j. timers (callsAt delay es st)
            = [(j, fst (last ((t0, a0) # es)) + delay, snd (last ((t0, a0) # es)))]
       \<and> timeoutId (callsAt delay es st) = Some j
       \<and> executed (callsAt delay es st) = executed st"
  using assms
proof (induction es arbitrary: st i t0 a0)
  case Nil
  then show ?case by (simp add: callsAt_def)
next
  case (Cons e es)
  obtain t1 a1 where e: "e = (t1, a1)" by (cases e)
  from Cons.prems(3) e have le: "t0 \<le> t1" "t1 < t0 + delay" and b: "burst delay ((t1, a1) # es)"
    by simp_all
  from callAt_pending [OF Cons.prems(1,2) le, of a1]
  have st': "timers (callAt delay (t1, a1) st) = [(nextId st, t1 + delay, a1)]"
    "timeoutId (callAt delay (t1, a1) st) = Some (nextId st)"
    "executed (callAt delay (t1, a1) st) = executed st"
    by simp_all
  from Cons.IH [OF st'(1,2) b] st'(3) e show ?case
    by (simp add: callsAt_def)
qed

lemma callAt_init:
  "timers (callAt delay (t0, a0) debounceInit) = [(1, t0 + delay, a0)]
   \<and> timeoutId (callAt delay (t0, a0) debounceInit) = Some 1
   \<and> executed (callAt delay (t0, a0) debounceInit) = []"
  by (simp add: callAt_def debounced_def runTimers_def clearTimeout_def debounceInit_def)

lemma burst_pending:
  assumes "evs \<noteq> []" "burst delay evs"
  shows "\<exists>j. timers (callsAt delay evs debounceInit) = [(j, fst (last evs) + delay, snd (last evs))]
       \<and> timeoutId (callsAt delay evs debounceInit) = Some j
       \<and> executed (callsAt delay evs debounceInit) = []"
proof -
  from assms(1) obtain t0 a0 es where evs: "evs = (t0, a0) # es" by (cases evs) auto
  from callAt_init [of delay t0 a0] callsAt_pending [of "callAt delay (t0, a0) debounceInit" 1 t0 delay a0 es]
    assms(2) evs
  show ?thesis by (simp add: callsAt_def)
qed

lemma callAt_single:
  assumes "oneTimer st"
  shows "timers (callAt delay ev st) = [(nextId st, fst ev + delay, snd ev)]
       \<and> timeoutId (callAt delay ev st) = Some (nextId st)"
  using assms
  by (auto simp: oneTimer_def callAt_def debounced_def runTimers_def clearTimeout_def)

lemma callAt_oneTimer: "oneTimer st \<Longrightarrow> oneTimer (callAt delay ev st)"
  using callAt_single [of st delay ev] by (simp add: oneTimer_def)

lemma callsAt_oneTimer: "oneTimer st \<Longrightarrow> oneTimer (callsAt delay evs st)"
  by (induction evs arbitrary: st) (simp_all add: callsAt_def callAt_oneTimer)

lemma callsAt_snoc: "callsAt delay (evs @ [ev]) st = callAt delay ev (callsAt delay evs st)"
  by (simp add: callsAt_def)

lemma callsAt_single_timer:
  assumes "evs \<noteq> []"
  shows "\<exists>j. timers (callsAt delay evs debounceInit) = [(j, fst (last evs) + delay, snd (last evs))]
            \<and> timeoutId (callsAt delay evs debounceInit) = Some j"
proof -
  from assms obtain es e where evs: "evs = es @ [e]" by (metis rev_exhaust)
  have "oneTimer (callsAt delay es debounceInit)"
    by (rule callsAt_oneTimer) (simp add: oneTimer_def debounceInit_def)
  from callAt_single [OF this, of delay e] show ?thesis
    by (simp add: evs callsAt_snoc)
qed

text \<open>
  Claim C7. For a debounced function with delay \<open>D\<close> and a burst of \<open>N \<ge> 1\<close>
  calls, each less than \<open>D\<close> after the one before: the wrapped function runs
  exactly once, at \<open>D\<close> after the last call and with the arguments of the last
  call, and not at all before that time. After any calls at all, the only
  active timer is that of the last call: the earlier ones are cancelled and
  cannot run after it.
\<close>

theorem debounce_burst:
  assumes "evs \<noteq> []" "burst delay evs"
  shows "(fst (last evs) + delay \<le> t \<longrightarrow>
            executed (runTimers t (callsAt delay evs debounceInit))
              = [(fst (last evs) + delay, snd (last evs))]
          \<and> timers (runTimers t (callsAt delay evs debounceInit)) = [])
       \<and> (t < fst (last evs) + delay \<longrightarrow>
            executed (runTimers t (callsAt delay evs debounceInit)) = [])
       \<and> (evs' \<noteq> [] \<longrightarrow>
            (\<exists>j. timers (callsAt delay evs' debounceInit)
                   = [(j, fst (last evs') + delay, snd (last evs'))]))"
proof -
  have "executed (runTimers t (callsAt delay evs debounceInit))
          = [(fst (last evs) + delay, snd (last evs))]
        \<and> timers (runTimers t (callsAt delay evs debounceInit)) = []"
    if "fst (last evs) + delay \<le> t"
    using burst_pending [OF assms] that by (auto simp: runTimers_def)
  moreover have "executed (runTimers t (callsAt delay evs debounceInit)) = []"
    if "t < fst (last evs) + delay"
    using burst_pending [OF assms] that by (auto simp: runTimers_def)
  moreover have "\<exists>j. timers (callsAt delay evs' debounceInit)
                   = [(j, fst (last evs') + delay, snd (last evs'))]"
    if "evs' \<noteq> []"
    using callsAt_single_timer [OF that] by blast
  ultimately show ?thesis by blast
qed

theorem debounce_burst_witness:
  "exampleCalls \<noteq> [] \<and> burst 300 exampleCalls
   \<and> executed (runTimers 649 (callsAt 300 exampleCalls debounceInit)) = []
   \<and> executed (runTimers 650 (callsAt 300 exampleCalls debounceInit)) = [(650, ''12.5'')]
   \<and> executed (runTimers 5000 (callsAt 300 exampleCalls debounceInit)) = [(650, ''12.5'')]"
proof -
  have h: "exampleCalls \<noteq> []" "burst 300 exampleCalls"
    by (simp_all add: exampleCalls_def)
  have l: "fst (last exampleCalls) = 350" "snd (last exampleCalls) = ''12.5''"
    by (simp_all add: exampleCalls_def)
  show ?thesis
    using h debounce_burst [OF h, of 649 "[]"] debounce_burst [OF h, of 650 "[]"]
      debounce_burst [OF h, of 5000 "[]"] l
    by simp
qed

subsection \<open>The swap session\<close>

lemma replicate_numeral: "replicate (numeral k) x = x # replicate (pred_numeral k) x"
  by (simp add: numeral_eq_Suc)

lemmas number_text_defs = positiveToString_def decimalExponent_def digitsOf.simps leadingZeros.simps
  scale10_def isInteger_def exponentText_def digitChar_def digitCount_def Let_def replicate_numeral

lemmas parse_defs = parseFloat_def parseUnsigned_def parseExponent_def scale10_def digitsValue_def
  digitVal_def isDigit_def isWhiteSpace_def Let_def

lemmas hook_defs = session_def runDue_def runTimers_def setFromToken_def setToToken_def
  setFromAmount_def setToAmount_def swapTokens_def resetForm_def executeSwap_def commitDone_def
  calculateToAmount_def effects_def clearError_def autoCalculate_def exchangeRate_def
  setFormData_def initialState_def initialFormData_def debounceInit_def debounced_def
  clearTimeout_def setTimeout_def validation_def amountPattern_def

lemma validation_message:
  "\<not> isValid (validation s) \<Longrightarrow>
     ValidationResult.error (validation s) = Some (validationMessage (validation s))"
  by (auto simp: validation_def validateSwapData_def validationMessage_def
      split: option.splits if_splits)

text \<open>
  Claim C5. When validation fails, \<open>executeSwap\<close> does not start the commit:
  \<open>isLoading\<close> keeps its value (so stays false), no timer is set, \<open>error\<close> is the
  message of the failing check (the first message when no token is set), and
  \<open>formData\<close> is unchanged.
\<close>

theorem executeSwap_rejected:
  assumes "\<not> isValid (validation s)"
  shows "isLoading (executeSwap now s) = isLoading s
       \<and> formData (executeSwap now s) = formData s
       \<and> runtime (executeSwap now s) = runtime s
       \<and> error (executeSwap now s) = ValidationResult.error (validation s)
       \<and> error (executeSwap now s) \<in>
            {Some ''Please select a token to swap from'', Some ''Please select a token to swap to'',
             Some ''Cannot swap the same token'', Some ''Please enter a valid amount''}
       \<and> (fromToken (formData s) = None \<longrightarrow>
             error (executeSwap now s) = Some ''Please select a token to swap from'')
       \<and> toasts (executeSwap now s) = toasts s @ [ErrorToast (validationMessage (validation s))]"
proof -
  have e: "error (executeSwap now s) = ValidationResult.error (validation s)"
    using assms validation_message [OF assms] by (simp add: executeSwap_def)
  have m: "ValidationResult.error (validation s) \<in>
            {Some ''Please select a token to swap from'', Some ''Please select a token to swap to'',
             Some ''Cannot swap the same token'', Some ''Please enter a valid amount''}"
    using assms by (auto simp: validation_def validateSwapData_def split: option.splits if_splits)
  have f: "ValidationResult.error (validation s) = Some ''Please select a token to swap from''"
    if "fromToken (formData s) = None"
    using that by (simp add: validation_def validateSwapData_def)
  show ?thesis
    using assms e m f by (simp add: executeSwap_def)
qed

theorem executeSwap_rejected_witness:
  "\<not> isValid (validation initialState)
   \<and> \<not> isLoading (executeSwap 0 initialState)
   \<and> error (executeSwap 0 initialState) = Some ''Please select a token to swap from''
   \<and> formData (executeSwap 0 initialState) = initialFormData
   \<and> timers (runtime (executeSwap 0 initialState)) = []"
proof -
  have h: "\<not> isValid (validation initialState)"
    by (simp add: validation_def validateSwapData_def initialState_def initialFormData_def)
  have i: "isLoading initialState = False" "formData initialState = initialFormData"
    "fromToken (formData initialState) = None" "timers (runtime initialState) = []"
    by (simp_all add: initialState_def initialFormData_def debounceInit_def)
  show ?thesis
    using h executeSwap_rejected [OF h, of 0] i by auto
qed

lemma effects_reset:
  assumes "formData s = initialFormData" "error s = None"
  shows "effects now prev s = s"
proof -
  have "exchangeRate s = None" using assms by (simp add: exchangeRate_def initialFormData_def)
  moreover have "setFormData (\<lambda>prev. prev\<lparr> toAmount := [] \<rparr>) s = s"
    using assms by (simp add: setFormData_def initialFormData_def)
  ultimately show ?thesis
    using assms by (simp add: effects_def autoCalculate_def clearError_def)
qed

lemma commitDone_state:
  "commitDone t fd s =
     s\<lparr> toasts := toasts s @ [SuccessToast (fromAmount fd) (tokenCurrency (fromToken fd))
                                     (toAmount fd) (tokenCurrency (toToken fd))],
        formData := initialFormData, error := None, isLoading := False \<rparr>"
  unfolding commitDone_def by (rule effects_reset) simp_all

text \<open>
  Claim C6. On a Ready session (both tokens set, distinct currencies, valid
  \<open>fromAmount\<close>) \<open>executeSwap\<close> sets \<open>isLoading\<close>, clears \<open>error\<close> and starts the
  2000 ms commit; its completion, in whatever state it finds the session, resets
  \<open>formData\<close> to its initial value, leaves \<open>error\<close> null and sets \<open>isLoading\<close>
  to false. With no other timer waiting, the session is loading until the delay
  has passed and is the initial one from then on.
\<close>

theorem executeSwap_ready:
  assumes "fromToken (formData s) = Some f" "toToken (formData s) = Some t"
    and "Token.currency f \<noteq> Token.currency t" "isValidAmount (fromAmount (formData s))"
  shows "isLoading (executeSwap now s)
       \<and> error (executeSwap now s) = None
       \<and> formData (executeSwap now s) = formData s
       \<and> timers (runtime (executeSwap now s))
           = timers (runtime s) @ [(nextId (runtime s), now + 2000, CommitDone (formData s))]
       \<and> formData (commitDone t' fd s') = initialFormData
       \<and> error (commitDone t' fd s') = None
       \<and> \<not> isLoading (commitDone t' fd s')
       \<and> (timers (runtime s) = [] \<longrightarrow>
            (u < now + 2000 \<longrightarrow>
               isLoading (runDue u (executeSwap now s))
               \<and> formData (runDue u (executeSwap now s)) = formData s) \<and>
            (now + 2000 \<le> u \<longrightarrow>
               \<not> isLoading (runDue u (executeSwap now s))
               \<and> formData (runDue u (executeSwap now s)) = initialFormData
               \<and> error (runDue u (executeSwap now s)) = None
               \<and> timers (runtime (runDue u (executeSwap now s))) = []))"
proof -
  have v: "isValid (validation s)"
    using assms by (simp add: validation_def validateSwapData_def)
  have 1: "isLoading (executeSwap now s)" "error (executeSwap now s) = None"
    "formData (executeSwap now s) = formData s"
    "timers (runtime (executeSwap now s))
           = timers (runtime s) @ [(nextId (runtime s), now + 2000, CommitDone (formData s))]"
    using v by (simp_all add: executeSwap_def setTimeout_def)
  have 2: "formData (commitDone t' fd s') = initialFormData" "error (commitDone t' fd s') = None"
    "\<not> isLoading (commitDone t' fd s')"
    by (simp_all add: commitDone_state)
  have 3: "isLoading (runDue u (executeSwap now s)) \<and> formData (runDue u (executeSwap now s)) = formData s"
    if "timers (runtime s) = []" "u < now + 2000"
    using that 1 by (simp add: runDue_def)
  have 4: "\<not> isLoading (runDue u (executeSwap now s))
               \<and> formData (runDue u (executeSwap now s)) = initialFormData
               \<and> error (runDue u (executeSwap now s)) = None
               \<and> timers (runtime (runDue u (executeSwap now s))) = []"
    if "timers (runtime s) = []" "now + 2000 \<le> u"
    using that 1 by (simp add: runDue_def commitDone_state runTimers_def)
  from 1 2 3 4 show ?thesis by blast
qed

lemma readyState_eval:
  "readyState =
     \<lparr> formData = \<lparr> fromToken = Some (testToken ''ETH'' (Fin 2000)),
                     toToken = Some (testToken ''BTC'' (Fin 30000)),
                     fromAmount = ''10'', toAmount = ''0.66666666666666666'' \<rparr>,
       isLoading = False, error = None,
       runtime = \<lparr> timers = [], nextId = 2, timeoutId = Some 1,
                   executed = [(310, Recalc ''10'' (Fin (1 / 15)))] \<rparr>,
       toasts = [] \<rparr>"
  by (simp add: readyState_def ethBtc_def hook_defs calculateExchangeRate_def optPrice_def falsy_def
      testToken_def calculateOutputAmount_def toNumber_def parse_defs isNaN_def js_le_def
      number_text_defs)

theorem executeSwap_ready_witness:
  "fromToken (formData readyState) = Some (testToken ''ETH'' (Fin 2000))
   \<and> toToken (formData readyState) = Some (testToken ''BTC'' (Fin 30000))
   \<and> isValidAmount (fromAmount (formData readyState))
   \<and> \<not> isLoading readyState
   \<and> isLoading (executeSwap 400 readyState)
   \<and> error (executeSwap 400 readyState) = None
   \<and> isLoading (runDue 2399 (executeSwap 400 readyState))
   \<and> \<not> isLoading (runDue 2400 (executeSwap 400 readyState))
   \<and> formData (runDue 2400 (executeSwap 400 readyState)) = initialFormData
   \<and> error (runDue 2400 (executeSwap 400 readyState)) = None"
proof -
  have f: "fromToken (formData readyState) = Some (testToken ''ETH'' (Fin 2000))"
    and t: "toToken (formData readyState) = Some (testToken ''BTC'' (Fin 30000))"
    and a: "fromAmount (formData readyState) = ''10''"
    and l: "\<not> isLoading readyState" and q: "timers (runtime readyState) = []"
    by (simp_all add: readyState_eval)
  have c: "Token.currency (testToken ''ETH'' (Fin 2000)) \<noteq> Token.currency (testToken ''BTC'' (Fin 30000))"
    by (simp add: testToken_def)
  have v: "isValidAmount (fromAmount (formData readyState))"
    by (simp add: a isValidAmount_10)
  show ?thesis
    using executeSwap_ready [OF f t c v, of 400 0 initialFormData initialState 2399]
      executeSwap_ready [OF f t c v, of 400 0 initialFormData initialState 2400]
      f t v l q
    by simp
qed

text \<open>
  Claim C9, as the code has it. When the exchange rate is 0 and \<open>setToAmount\<close> is
  called with a non-empty amount that matches the pattern, the guard
  \<open>exchangeRate && amount\<close> skips the reverse calculation: \<open>toAmount\<close> becomes the
  argument, and \<open>fromAmount\<close>, the tokens and the timers are as before.
\<close>

theorem setToAmount_zero_rate:
  assumes "exchangeRate s = Some (Fin 0)" "amount \<noteq> []" "amountPattern amount"
  shows "fromAmount (formData (setToAmount now amount s)) = fromAmount (formData s)
       \<and> toAmount (formData (setToAmount now amount s)) = amount
       \<and> fromToken (formData (setToAmount now amount s)) = fromToken (formData s)
       \<and> toToken (formData (setToAmount now amount s)) = toToken (formData s)
       \<and> runtime (setToAmount now amount s) = runtime s"
proof -
  let ?s1 = "setFormData (\<lambda>prev. prev\<lparr> toAmount := amount \<rparr>) s"
  have r: "exchangeRate ?s1 = exchangeRate s"
    by (simp add: exchangeRate_def setFormData_def)
  have "setToAmount now amount s = effects now s ?s1"
    using assms by (simp add: setToAmount_def)
  also have "\<dots> = clearError ?s1"
    using r by (simp add: effects_def setFormData_def)
  finally show ?thesis
    by (simp add: clearError_def setFormData_def split: option.splits)
qed

lemma zeroRateState_rate: "exchangeRate zeroRateState = Some (Fin 0)"
  by (simp add: zeroRateState_def hook_defs calculateExchangeRate_def optPrice_def falsy_def
      testToken_def)

lemma zeroRateState_fromAmount: "fromAmount (formData zeroRateState) = []"
  by (simp add: zeroRateState_def hook_defs calculateExchangeRate_def optPrice_def falsy_def
      testToken_def)

lemma amountPattern_5: "amountPattern ''5''"
  by (simp add: amountPattern_def isDigit_def)

theorem setToAmount_zero_rate_witness:
  "exchangeRate zeroRateState = Some (Fin 0) \<and> amountPattern ''5''
   \<and> fromAmount (formData (setToAmount 10 ''5'' zeroRateState)) = []
   \<and> toAmount (formData (setToAmount 10 ''5'' zeroRateState)) = ''5''"
  using setToAmount_zero_rate [OF zeroRateState_rate _ amountPattern_5, of 10]
    zeroRateState_rate amountPattern_5 zeroRateState_fromAmount
  by simp

text \<open>
  The claim as written fails: with the rate 0, \<open>1 / exchangeRate\<close> would be
  \<open>Infinity\<close> and the reverse calculation would give the text "Infinity", but
  \<open>fromAmount\<close> stays empty.
\<close>

theorem setToAmount_zero_rate_guarded:
  "exchangeRate zeroRateState = Some (Fin 0)
   \<and> amountPattern ''5''
   \<and> js_div (Fin 1) (Fin 0) = PosInf
   \<and> numberToString (calculateOutputAmount (Str ''5'') (js_div (Fin 1) (Fin 0))) = ''Infinity''
   \<and> fromAmount (formData zeroRateState) = []
   \<and> fromAmount (formData (setToAmount 10 ''5'' zeroRateState)) = []"
  by (simp add: zeroRateState_def hook_defs calculateExchangeRate_def optPrice_def falsy_def
      testToken_def isDigit_def calculateOutputAmount_def toNumber_def parse_defs isNaN_def js_le_def)

subsection \<open>The amount texts\<close>

lemma isDigit_digitChar: "d < 10 \<Longrightarrow> isDigit (digitChar d)"
proof -
  assume "d < 10"
  then have "d \<in> {0, 1, 2, 3, 4, 5, 6, 7, 8, 9}" by auto
  then show ?thesis by (auto simp: isDigit_def digitChar_def)
qed

lemma digitsOf_digits: "list_all isDigit (digitsOf m)"
proof (induction m rule: digitsOf.induct)
  case (1 n)
  show ?case
  proof (cases "n < 10")
    case True
    then show ?thesis by (subst digitsOf.simps) (simp add: isDigit_digitChar)
  next
    case False
    with 1 show ?thesis by (subst digitsOf.simps) (simp add: isDigit_digitChar)
  qed
qed

lemma digitsOf_length: "m < 10 ^ Suc j \<Longrightarrow> length (digitsOf m) \<le> Suc j"
proof (induction j arbitrary: m)
  case 0
  then show ?case by (subst digitsOf.simps) simp
next
  case (Suc j)
  show ?case
  proof (cases "m < 10")
    case True
    then show ?thesis by (subst digitsOf.simps) simp
  next
    case False
    from Suc.prems have "m div 10 < 10 ^ Suc j" by (simp add: less_mult_imp_div_less mult.commute)
    from Suc.IH [OF this] False show ?thesis by (subst digitsOf.simps) simp
  qed
qed

lemma leadingZeros_bound: "1 / 10 ^ Suc j \<le> x \<Longrightarrow> leadingZeros x \<le> j"
proof (induction j arbitrary: x)
  case 0
  then show ?case by (subst leadingZeros.simps) simp
next
  case (Suc j)
  show ?case
  proof (cases "0 < x \<and> x < 1 / 10")
    case True
    from Suc.prems have "1 / 10 ^ Suc j \<le> 10 * x" by (simp add: field_simps)
    from Suc.IH [OF this] True show ?thesis by (subst leadingZeros.simps) simp
  next
    case False
    then show ?thesis by (subst leadingZeros.simps) auto
  qed
qed

lemma amountPattern_digits: "list_all isDigit ds \<Longrightarrow> amountPattern ds"
proof -
  assume "list_all isDigit ds"
  then have h: "dropWhile isDigit ds = []" by (simp add: list_all_iff)
  show ?thesis by (simp only: amountPattern_def h list.case)
qed

lemma amountPattern_point:
  assumes "list_all isDigit a" "list_all isDigit b"
  shows "amountPattern (a @ CHR ''.'' # b)"
proof -
  have "\<not> isDigit CHR ''.''" by (simp add: isDigit_def)
  with assms(1) have h: "dropWhile isDigit (a @ CHR ''.'' # b) = CHR ''.'' # b"
    by (simp add: list_all_iff dropWhile_append)
  show ?thesis using assms(2) by (simp only: amountPattern_def h list.case)
qed

lemma decimalExponent_range:
  assumes "1 / 10 ^ 6 \<le> x" "x < 10 ^ 21"
  shows "- 6 < decimalExponent x \<and> decimalExponent x \<le> 21"
proof (cases "1 \<le> x")
  case True
  then have "0 \<le> \<lfloor>x\<rfloor>" by simp
  moreover have "\<lfloor>x\<rfloor> < 10 ^ 21" using assms(2) by (simp add: floor_less_iff)
  ultimately have "nat \<lfloor>x\<rfloor> < 10 ^ Suc 20" by (simp add: nat_less_iff)
  from digitsOf_length [OF this] True show ?thesis by (simp add: decimalExponent_def)
next
  case False
  from assms(1) have "1 / 10 ^ Suc 5 \<le> x" by simp
  from leadingZeros_bound [OF this] False show ?thesis by (simp add: decimalExponent_def)
qed

lemma positiveToString_plain:
  assumes "1 / 10 ^ 6 \<le> x" "x < 10 ^ 21"
  shows "amountPattern (positiveToString x)"
proof -
  define n where "n = decimalExponent x"
  define k where "k = digitCount x n"
  define ds where "ds = digitsOf (nat \<lfloor>scale10 x (int k - n)\<rfloor>)"
  have r: "- 6 < n" "n \<le> 21" using decimalExponent_range [OF assms] by (simp_all add: n_def)
  have d: "list_all isDigit ds" by (simp add: ds_def digitsOf_digits)
  have z: "list_all isDigit (replicate j CHR ''0'')" for j
    by (simp add: list_all_iff isDigit_def)
  have p: "positiveToString x =
     (if int k \<le> n \<and> n \<le> 21 then ds @ replicate (nat (n - int k)) CHR ''0''
         else if 0 < n \<and> n \<le> 21 then take (nat n) ds @ CHR ''.'' # drop (nat n) ds
         else if - 6 < n \<and> n \<le> 0 then ''0.'' @ replicate (nat (- n)) CHR ''0'' @ ds
         else if k = 1 then ds @ CHR ''e'' # exponentText (n - 1)
         else take 1 ds @ CHR ''.'' # drop 1 ds @ CHR ''e'' # exponentText (n - 1))"
    by (simp add: positiveToString_def Let_def n_def k_def ds_def)
  consider (a) "int k \<le> n" | (b) "\<not> int k \<le> n" "0 < n" | (c) "\<not> int k \<le> n" "n \<le> 0"
    by linarith
  then show ?thesis
  proof cases
    case a
    with r p have "positiveToString x = ds @ replicate (nat (n - int k)) CHR ''0''" by simp
    moreover have "list_all isDigit (ds @ replicate (nat (n - int k)) CHR ''0'')"
      using d z by simp
    ultimately show ?thesis by (simp only: amountPattern_digits)
  next
    case b
    with r p have "positiveToString x = take (nat n) ds @ CHR ''.'' # drop (nat n) ds" by simp
    moreover have "list_all isDigit (take (nat n) ds)" "list_all isDigit (drop (nat n) ds)"
      using d by (auto simp: list_all_iff dest: in_set_takeD in_set_dropD)
    ultimately show ?thesis by (simp only: amountPattern_point)
  next
    case c
    with r p have "positiveToString x = ''0'' @ CHR ''.'' # (replicate (nat (- n)) CHR ''0'' @ ds)"
      by simp
    moreover have "list_all isDigit ''0''" by (simp add: isDigit_def)
    moreover have "list_all isDigit (replicate (nat (- n)) CHR ''0'' @ ds)" using d z by simp
    ultimately show ?thesis by (simp only: amountPattern_point)
  qed
qed

lemma numberToString_plain: "plainNumber v \<Longrightarrow> amountPattern (numberToString v)"
proof (cases v)
  case (Fin x)
  assume "plainNumber v"
  with Fin consider "x = 0" | "1 / 10 ^ 6 \<le> x" "x < 10 ^ 21" by auto
  then show ?thesis
  proof cases
    case 1
    then show ?thesis using Fin by (simp add: amountPattern_def isDigit_def)
  next
    case 2
    then have "0 < x" by (smt (verit) divide_pos_pos zero_less_power)
    with 2 Fin show ?thesis by (simp add: positiveToString_plain)
  qed
qed simp_all

lemma formData_clearError: "formData (clearError s) = formData s"
  by (simp add: clearError_def split: option.splits)

lemma amountsOk_formData: "formData s' = formData s \<Longrightarrow> amountsOk s' = amountsOk s"
  by (simp add: amountsOk_def)

lemma amountPattern_Nil: "amountPattern []"
  by (simp add: amountPattern_def)

lemma amountsOk_autoCalculate: "amountsOk s \<Longrightarrow> amountsOk (autoCalculate now s)"
  by (auto simp: autoCalculate_def amountsOk_def setFormData_def amountPattern_Nil
      split: option.splits)

lemma amountsOk_effects: "amountsOk s \<Longrightarrow> amountsOk (effects now prev s)"
  using amountsOk_formData [OF formData_clearError]
  by (simp add: effects_def amountsOk_autoCalculate)

lemma fromAmount_effects: "fromAmount (formData (effects now prev s)) = fromAmount (formData s)"
  by (simp add: effects_def formData_clearError autoCalculate_def setFormData_def split: option.splits)

lemma amountsOk_initial: "amountsOk initialState"
  by (simp add: amountsOk_def initialState_def initialFormData_def amountPattern_Nil)

lemma amountsOk_setFromAmount: "amountsOk s \<Longrightarrow> amountsOk (setFromAmount now a s)"
  by (auto simp: setFromAmount_def intro!: amountsOk_effects)
     (auto simp: amountsOk_def setFormData_def amountPattern_Nil)

lemma amountsOk_setToken:
  assumes "amountsOk s"
  shows "amountsOk (setFromToken now tok s) \<and> amountsOk (setToToken now tok s)"
proof -
  have "amountsOk (setFormData (\<lambda>prev. prev\<lparr> fromToken := tok \<rparr>) s)"
    "amountsOk (setFormData (\<lambda>prev. prev\<lparr> toToken := tok \<rparr>) s)"
    using assms by (simp_all add: amountsOk_def setFormData_def)
  then show ?thesis
    unfolding setFromToken_def setToToken_def by (simp add: amountsOk_effects)
qed

lemma amountsOk_swapTokens: "amountsOk s \<Longrightarrow> amountsOk (swapTokens now s)"
proof -
  assume a: "amountsOk s"
  let ?s1 = "setFormData (\<lambda>prev. prev\<lparr> fromToken := toToken prev, toToken := fromToken prev,
                                  fromAmount := toAmount prev, toAmount := fromAmount prev \<rparr>) s"
  have "amountsOk ?s1" using a by (simp add: amountsOk_def setFormData_def)
  then have "amountsOk (effects now s ?s1)" by (rule amountsOk_effects)
  then show ?thesis by (simp add: swapTokens_def amountsOk_def)
qed

lemma amountsOk_resetForm: "amountsOk (resetForm now s)"
  unfolding resetForm_def
  by (rule amountsOk_effects) (simp add: amountsOk_def initialFormData_def amountPattern_Nil)

lemma amountsOk_executeSwap: "amountsOk s \<Longrightarrow> amountsOk (executeSwap now s)"
  by (simp add: executeSwap_def amountsOk_def)

lemma amountsOk_commitDone: "amountsOk (commitDone now fd s)"
  unfolding commitDone_def
  by (rule amountsOk_effects) (simp add: amountsOk_def initialFormData_def amountPattern_Nil)

lemma amountsOk_calculateToAmount:
  assumes "amountsOk s" "\<not> truthy r \<or> a = [] \<or> plainNumber (calculateOutputAmount (Str a) r)"
  shows "amountsOk (calculateToAmount now a r s)"
  unfolding calculateToAmount_def
proof (rule amountsOk_effects)
  show "amountsOk (if truthy r \<and> a \<noteq> []
        then setFormData (\<lambda>prev. prev\<lparr> toAmount :=
               numberToString (calculateOutputAmount (Str a) r) \<rparr>) s
        else setFormData (\<lambda>prev. prev\<lparr> toAmount := [] \<rparr>) s)"
    using assms
    by (auto simp: amountsOk_def setFormData_def amountPattern_Nil numberToString_plain)
qed

lemma toAmount_effects:
  "toAmount (formData (effects now prev s)) = toAmount (formData s)
   \<or> toAmount (formData (effects now prev s)) = []"
  by (auto simp: effects_def formData_clearError autoCalculate_def setFormData_def
      split: option.splits)

lemma setToAmount_cases:
  assumes "a = [] \<or> amountPattern a"
  obtains (direct) "\<not> (\<exists>r. exchangeRate s = Some r \<and> truthy r \<and> a \<noteq> [])"
      "setToAmount now a s = effects now s (setFormData (\<lambda>prev. prev\<lparr> toAmount := a \<rparr>) s)"
  | (reverse) r where "exchangeRate s = Some r" "truthy r" "a \<noteq> []"
      "setToAmount now a s =
         effects now s
           (setFormData (\<lambda>prev. prev\<lparr> fromAmount :=
                numberToString (calculateOutputAmount (Str a) (js_div (Fin 1) r)) \<rparr>)
             (setFormData (\<lambda>prev. prev\<lparr> toAmount := a \<rparr>) s))"
proof (cases "\<exists>r. exchangeRate s = Some r \<and> truthy r \<and> a \<noteq> []")
  case False
  then have "setToAmount now a s = effects now s (setFormData (\<lambda>prev. prev\<lparr> toAmount := a \<rparr>) s)"
    using assms by (auto simp: setToAmount_def Let_def split: option.splits)
  with False show ?thesis by (rule direct)
next
  case True
  then obtain r where r: "exchangeRate s = Some r" "truthy r" "a \<noteq> []" by blast
  then have "setToAmount now a s =
         effects now s
           (setFormData (\<lambda>prev. prev\<lparr> fromAmount :=
                numberToString (calculateOutputAmount (Str a) (js_div (Fin 1) r)) \<rparr>)
             (setFormData (\<lambda>prev. prev\<lparr> toAmount := a \<rparr>) s))"
    using assms by (simp add: setToAmount_def Let_def)
  with r show ?thesis by (rule reverse)
qed

lemma setToAmount_toAmount:
  assumes "amountsOk s"
  shows "amountPattern (toAmount (formData (setToAmount now a s)))"
proof (cases "a = [] \<or> amountPattern a")
  case False
  then show ?thesis using assms by (simp add: setToAmount_def amountsOk_def)
next
  case True
  then have p: "amountPattern a" by (auto simp: amountPattern_Nil)
  from True show ?thesis
  proof (cases rule: setToAmount_cases [where s = s and now = now])
    case direct
    show ?thesis
      using toAmount_effects [of now s "setFormData (\<lambda>prev. prev\<lparr> toAmount := a \<rparr>) s"] p
      by (auto simp: direct(2) setFormData_def amountPattern_Nil)
  next
    case (reverse r)
    show ?thesis
      using toAmount_effects [of now s "setFormData (\<lambda>prev. prev\<lparr> fromAmount :=
                numberToString (calculateOutputAmount (Str a) (js_div (Fin 1) r)) \<rparr>)
             (setFormData (\<lambda>prev. prev\<lparr> toAmount := a \<rparr>) s)"] p
      by (auto simp: reverse(4) setFormData_def amountPattern_Nil)
  qed
qed

lemma amountsOk_setToAmount:
  assumes "amountsOk s"
    and "\<forall>r. exchangeRate s = Some r \<and> truthy r \<and> a \<noteq> []
             \<longrightarrow> plainNumber (calculateOutputAmount (Str a) (js_div (Fin 1) r))"
  shows "amountsOk (setToAmount now a s)"
proof -
  have "amountPattern (fromAmount (formData (setToAmount now a s)))"
  proof (cases "a = [] \<or> amountPattern a")
    case False
    then show ?thesis using assms by (simp add: setToAmount_def amountsOk_def)
  next
    case True
    then show ?thesis
    proof (cases rule: setToAmount_cases [where s = s and now = now])
      case direct
      show ?thesis
        using assms(1) by (simp add: direct(2) fromAmount_effects setFormData_def amountsOk_def)
    next
      case (reverse r)
      with assms(2) have "plainNumber (calculateOutputAmount (Str a) (js_div (Fin 1) r))" by blast
      then show ?thesis
        by (simp add: reverse(4) fromAmount_effects setFormData_def numberToString_plain)
    qed
  qed
  with setToAmount_toAmount [OF assms(1)] show ?thesis by (simp add: amountsOk_def)
qed

text \<open>
  Claim C8, as the code has it. The amount texts match the pattern of an
  unsigned decimal number (digits, at most one point, digits; the empty text
  included) in the initial state, and every operation keeps it so, the texts
  typed in and the texts computed alike, as long as each computed amount is
  written in plain decimal notation (it is 0 or lies in \<open>[10^-6, 10^21)\<close>):
  \<open>setFromAmount\<close> and \<open>setToAmount\<close> ignore an argument that does not match
  and store one that does; the reverse calculation of \<open>setToAmount\<close> and the
  debounced recomputation store \<open>toString\<close> of the computed number;
  \<open>setFromToken\<close>, \<open>setToToken\<close>, \<open>swapTokens\<close>, \<open>resetForm\<close>, \<open>executeSwap\<close> and
  the completion of the commit keep the property.
\<close>

theorem amountPattern_preserved:
  assumes "amountsOk s"
  shows "amountsOk initialState
       \<and> amountsOk (setFromAmount now a s)
       \<and> (\<not> amountPattern a \<longrightarrow> setFromAmount now a s = s \<and> setToAmount now a s = s)
       \<and> (amountPattern a \<longrightarrow> fromAmount (formData (setFromAmount now a s)) = a)
       \<and> amountPattern (toAmount (formData (setToAmount now a s)))
       \<and> ((\<forall>rate. exchangeRate s = Some rate \<and> truthy rate \<and> a \<noteq> []
               \<longrightarrow> plainNumber (calculateOutputAmount (Str a) (js_div (Fin 1) rate)))
            \<longrightarrow> amountsOk (setToAmount now a s))
       \<and> (\<not> truthy r \<or> a = [] \<or> plainNumber (calculateOutputAmount (Str a) r)
            \<longrightarrow> amountsOk (calculateToAmount now a r s))
       \<and> (plainNumber v \<longrightarrow> amountPattern (numberToString v))
       \<and> amountsOk (setFromToken now tok s)
       \<and> amountsOk (setToToken now tok s)
       \<and> amountsOk (swapTokens now s)
       \<and> amountsOk (resetForm now s)
       \<and> amountsOk (executeSwap now s)
       \<and> amountsOk (commitDone now fd s)"
proof -
  have 1: "setFromAmount now a s = s \<and> setToAmount now a s = s" if "\<not> amountPattern a"
  proof -
    from that have "a \<noteq> []" by (auto simp: amountPattern_Nil)
    with that show ?thesis by (simp add: setFromAmount_def setToAmount_def)
  qed
  have 2: "fromAmount (formData (setFromAmount now a s)) = a" if "amountPattern a"
    using that by (simp add: setFromAmount_def fromAmount_effects setFormData_def)
  show ?thesis
    using assms 1 2 amountsOk_initial amountsOk_setFromAmount [of s now a]
      setToAmount_toAmount [of s now a] amountsOk_setToAmount [of s a now]
      amountsOk_calculateToAmount [of s r a now] numberToString_plain [of v]
      amountsOk_setToken [of s now tok] amountsOk_swapTokens [of s now]
      amountsOk_resetForm [of now s] amountsOk_executeSwap [of s now]
      amountsOk_commitDone [of now fd s]
    by blast
qed

lemma tinyAmount_toAmount: "toAmount (formData (session tinyAmount)) = ''1e-7''"
  by (simp add: tinyAmount_def hook_defs calculateExchangeRate_def optPrice_def falsy_def
      testToken_def calculateOutputAmount_def toNumber_def parse_defs isNaN_def js_le_def
      number_text_defs)

lemma tinyAmount_fromAmount: "fromAmount (formData (session tinyAmount)) = ''0.0000001''"
  by (simp add: tinyAmount_def hook_defs calculateExchangeRate_def optPrice_def falsy_def
      testToken_def isDigit_def)

text \<open>
  The claim as written fails for a computed amount below \<open>10^-6\<close>: with the
  rate 1 and the amount 0.0000001 typed in, the debounced recomputation stores
  \<open>toString\<close> of \<open>10^-7\<close>, which is in exponent notation.
\<close>

theorem amountPattern_broken:
  "amountPattern ''0.0000001''
   \<and> fromAmount (formData (session tinyAmount)) = ''0.0000001''
   \<and> toAmount (formData (session tinyAmount)) = ''1e-7''
   \<and> \<not> amountPattern (toAmount (formData (session tinyAmount)))
   \<and> \<not> amountsOk (session tinyAmount)"
  by (simp add: tinyAmount_toAmount tinyAmount_fromAmount amountsOk_def amountPattern_def
      isDigit_def)

lemma readyState_recalc: "plainNumber (calculateOutputAmount (Str ''10'') (Fin (1 / 15)))"
  by (simp add: calculateOutputAmount_def toNumber_def parse_defs isNaN_def js_le_def)

theorem amountPattern_preserved_witness:
  "amountsOk initialState
   \<and> amountsOk (setFromAmount 0 ''12.5'' initialState)
   \<and> fromAmount (formData (setFromAmount 0 ''12.5'' initialState)) = ''12.5''
   \<and> setFromAmount 0 ''abc'' initialState = initialState
   \<and> setToAmount 0 ''1e5'' initialState = initialState
   \<and> amountsOk (calculateToAmount 310 ''10'' (Fin (1 / 15)) initialState)
   \<and> amountsOk (swapTokens 0 initialState)"
proof -
  have p: "amountPattern ''12.5''" "\<not> amountPattern ''abc''" "\<not> amountPattern ''1e5''"
    by (simp_all add: amountPattern_def isDigit_def)
  show ?thesis
    using amountPattern_preserved [OF amountsOk_initial, of 0 "''12.5''"]
      amountPattern_preserved [OF amountsOk_initial, of 0 "''abc''"]
      amountPattern_preserved [OF amountsOk_initial, of 0 "''1e5''"]
      amountPattern_preserved [OF amountsOk_initial, of 310 "''10''" "Fin (1 / 15)"]
      p readyState_recalc
    by simp
qed

end
